theory Spec2Isabelle
  imports Main "HOL-Library.Log_Nat"
begin

text \<open>
  The triangle budget of a wearable (\<^verbatim>\<open>computeTriangleBudget\<close>) and the validation report
  (\<^verbatim>\<open>runValidation\<close>) of the DCL wearable validator, as functions of Isabelle/HOL, and
  the properties of the two that its specification states.
\<close>

section \<open>Slots, selections and the budget tables (src/lib/types.ts, src/lib/budgets.ts)\<close>

text \<open>
  The string union \<^verbatim>\<open>Slot\<close> of types.ts. The slot \<^verbatim>\<open>'mask'\<close> is written
  \<open>mask_slot\<close>, since \<open>mask\<close> is a constant of the library.
\<close>

datatype Slot =
    hat | helmet | upper_body | lower_body | feet | hair | mask_slot | eyewear
  | earring | tiara | top_head | facial_hair | hands | skin | head

record BudgetConfig =
  baseTriangles :: int
  maxMaterials :: int
  maxTextures :: int
  helmetAllHeadHiddenTriangles :: "int option"

text \<open>
  \<^verbatim>\<open>handHidesBase?: boolean\<close> is an optional field: \<open>None\<close> is the absent
  (undefined) value, which a condition reads as false.
\<close>

record UserSelection =
  targetSlot :: Slot
  hiddenSlots :: "Slot list"
  handHidesBase :: "bool option"

definition truthy :: "bool option \<Rightarrow> bool" where
  "truthy b = (case b of None \<Rightarrow> False | Some v \<Rightarrow> v)"

fun BASE_TRI_BUDGET :: "Slot \<Rightarrow> int" where
  "BASE_TRI_BUDGET hat = 1500"
| "BASE_TRI_BUDGET helmet = 1500"
| "BASE_TRI_BUDGET upper_body = 1500"
| "BASE_TRI_BUDGET lower_body = 1500"
| "BASE_TRI_BUDGET feet = 1500"
| "BASE_TRI_BUDGET hair = 1500"
| "BASE_TRI_BUDGET mask_slot = 500"
| "BASE_TRI_BUDGET eyewear = 500"
| "BASE_TRI_BUDGET earring = 500"
| "BASE_TRI_BUDGET tiara = 500"
| "BASE_TRI_BUDGET top_head = 500"
| "BASE_TRI_BUDGET facial_hair = 500"
| "BASE_TRI_BUDGET hands = 1000"
| "BASE_TRI_BUDGET skin = 5000"
| "BASE_TRI_BUDGET head = 500"

definition HELMET_HIDE_SET :: "Slot list" where
  "HELMET_HIDE_SET = [head, earring, eyewear, tiara, hat, facial_hair, hair, top_head]"

definition plain_config :: "int \<Rightarrow> int \<Rightarrow> int \<Rightarrow> BudgetConfig" where
  "plain_config b m t =
     \<lparr>baseTriangles = b, maxMaterials = m, maxTextures = t, helmetAllHeadHiddenTriangles = None\<rparr>"

fun BASE_BUDGET_CONFIG :: "Slot \<Rightarrow> BudgetConfig" where
  "BASE_BUDGET_CONFIG hat = plain_config 1500 2 2"
| "BASE_BUDGET_CONFIG helmet =
     \<lparr>baseTriangles = 1500, maxMaterials = 2, maxTextures = 2,
      helmetAllHeadHiddenTriangles = Some 4000\<rparr>"
| "BASE_BUDGET_CONFIG upper_body = plain_config 1500 2 2"
| "BASE_BUDGET_CONFIG lower_body = plain_config 1500 2 2"
| "BASE_BUDGET_CONFIG feet = plain_config 1500 2 2"
| "BASE_BUDGET_CONFIG hair = plain_config 1500 2 2"
| "BASE_BUDGET_CONFIG mask_slot = plain_config 500 2 2"
| "BASE_BUDGET_CONFIG eyewear = plain_config 500 2 2"
| "BASE_BUDGET_CONFIG earring = plain_config 500 2 2"
| "BASE_BUDGET_CONFIG tiara = plain_config 500 2 2"
| "BASE_BUDGET_CONFIG top_head = plain_config 500 2 2"
| "BASE_BUDGET_CONFIG facial_hair = plain_config 500 2 2"
| "BASE_BUDGET_CONFIG hands = plain_config 1000 2 2"
| "BASE_BUDGET_CONFIG skin = plain_config 5000 2 5"
| "BASE_BUDGET_CONFIG head = plain_config 500 2 2"

text \<open>
  \<^verbatim>\<open>BASE_TRI_BUDGET[slot] || 0\<close>: the operator \<^verbatim>\<open>||\<close> yields its right operand
  when the left one is falsy, which for a number of the table means zero.
\<close>

definition or_zero :: "int \<Rightarrow> int" where
  "or_zero b = (if b = 0 then 0 else b)"

text \<open>
  \<^verbatim>\<open>computeTriangleBudget\<close>: the two early returns, the \<^verbatim>\<open>reduce\<close> over
  \<^verbatim>\<open>hiddenSlots\<close> from 0 (a left fold), and the helmet override, where
  \<^verbatim>\<open>every\<close> is \<open>list_all\<close> and \<^verbatim>\<open>includes\<close> is membership in the list.
\<close>

definition computeTriangleBudget :: "UserSelection \<Rightarrow> int" where
  "computeTriangleBudget selection =
     (if targetSlot selection = skin then 5000
      else if targetSlot selection = hands \<and> truthy (handHidesBase selection) then 1500
      else
        let baseBudget = BASE_TRI_BUDGET (targetSlot selection);
            combinedBudget = baseBudget +
              foldl (\<lambda>sum slot. sum + or_zero (BASE_TRI_BUDGET slot)) 0 (hiddenSlots selection);
            allHeadHidden = list_all (\<lambda>slot. slot \<in> set (hiddenSlots selection)) HELMET_HIDE_SET
        in if targetSlot selection = helmet \<and> allHeadHidden then 4000 else combinedBudget)"

definition getBudgetConfig :: "Slot \<Rightarrow> BudgetConfig" where
  "getBudgetConfig slot = BASE_BUDGET_CONFIG slot"

definition isHelmetSpecialRule :: "UserSelection \<Rightarrow> bool" where
  "isHelmetSpecialRule selection =
     (targetSlot selection = helmet \<and>
      list_all (\<lambda>slot. slot \<in> set (hiddenSlots selection)) HELMET_HIDE_SET)"

section \<open>JavaScript numbers\<close>

text \<open>
  A \<^verbatim>\<open>number\<close> is an IEEE binary64 value: a finite value (a rational), one of the two
  infinities, or NaN. Negative zero is not told apart from zero: no comparison of this
  program can see the difference, and no divisor of it is a computed zero.

  \<open>fl\<close> rounds a rational to the nearest value with a 53 bit significand, ties to the
  even significand, as every arithmetic operation on numbers does with its exact result.
  The exponent range is not bounded: the literals of the source and the quotients and
  products of integers below \<open>2\<^sup>5\<^sup>3\<close> in magnitude, which is all that this program rounds,
  stay far inside the range of binary64.
\<close>

datatype number = Finite rat | Infinity | NegInfinity | NaN

text \<open>\<open>binade x\<close> is \<open>\<lfloor>log\<^sub>2 x\<rfloor>\<close> for a positive rational \<open>x\<close>.\<close>

definition binade :: "rat \<Rightarrow> int" where
  "binade x = (if 1 \<le> x then bitlen \<lfloor>x\<rfloor> - 1 else - bitlen (\<lceil>1 / x\<rceil> - 1))"

definition round_half_even :: "rat \<Rightarrow> int" where
  "round_half_even x =
     (let f = \<lfloor>x\<rfloor>; d = x - of_int f
      in if d < 1 / 2 then f else if 1 / 2 < d then f + 1 else if even f then f else f + 1)"

definition fl :: "rat \<Rightarrow> rat" where
  "fl x =
     (if x = 0 then 0
      else let e = binade \<bar>x\<bar> - 52
           in sgn x * of_int (round_half_even (\<bar>x\<bar> / 2 powi e)) * 2 powi e)"

text \<open>An integer of the program as a number, and a decimal literal of the source.\<close>

definition num :: "int \<Rightarrow> number" where
  "num n = Finite (of_int n)"

definition lit :: "rat \<Rightarrow> number" where
  "lit q = Finite (fl q)"

text \<open>
  The operators \<^verbatim>\<open>/\<close>, \<^verbatim>\<open>*\<close>, \<^verbatim>\<open>-\<close>, \<^verbatim>\<open>>\<close> and \<^verbatim>\<open><=\<close> on numbers, and
  \<^verbatim>\<open>Math.ceil\<close>.
\<close>

fun js_div :: "number \<Rightarrow> number \<Rightarrow> number" where
  "js_div NaN _ = NaN"
| "js_div _ NaN = NaN"
| "js_div (Finite x) (Finite y) =
     (if y = 0 then (if x = 0 then NaN else if 0 < x then Infinity else NegInfinity)
      else Finite (fl (x / y)))"
| "js_div (Finite x) _ = Finite 0"
| "js_div Infinity (Finite y) = (if 0 \<le> y then Infinity else NegInfinity)"
| "js_div NegInfinity (Finite y) = (if 0 \<le> y then NegInfinity else Infinity)"
| "js_div _ _ = NaN"

fun js_mul :: "number \<Rightarrow> number \<Rightarrow> number" where
  "js_mul NaN _ = NaN"
| "js_mul _ NaN = NaN"
| "js_mul (Finite x) (Finite y) = Finite (fl (x * y))"
| "js_mul (Finite x) Infinity =
     (if x = 0 then NaN else if 0 < x then Infinity else NegInfinity)"
| "js_mul (Finite x) NegInfinity =
     (if x = 0 then NaN else if 0 < x then NegInfinity else Infinity)"
| "js_mul Infinity (Finite y) =
     (if y = 0 then NaN else if 0 < y then Infinity else NegInfinity)"
| "js_mul NegInfinity (Finite y) =
     (if y = 0 then NaN else if 0 < y then NegInfinity else Infinity)"
| "js_mul Infinity Infinity = Infinity"
| "js_mul NegInfinity NegInfinity = Infinity"
| "js_mul _ _ = NegInfinity"

fun js_sub :: "number \<Rightarrow> number \<Rightarrow> number" where
  "js_sub NaN _ = NaN"
| "js_sub _ NaN = NaN"
| "js_sub (Finite x) (Finite y) = Finite (fl (x - y))"
| "js_sub (Finite x) Infinity = NegInfinity"
| "js_sub (Finite x) NegInfinity = Infinity"
| "js_sub Infinity Infinity = NaN"
| "js_sub Infinity _ = Infinity"
| "js_sub NegInfinity NegInfinity = NaN"
| "js_sub NegInfinity _ = NegInfinity"

fun js_le :: "number \<Rightarrow> number \<Rightarrow> bool" where
  "js_le NaN _ = False"
| "js_le _ NaN = False"
| "js_le (Finite x) (Finite y) = (x \<le> y)"
| "js_le (Finite x) Infinity = True"
| "js_le (Finite x) NegInfinity = False"
| "js_le Infinity b = (b = Infinity)"
| "js_le NegInfinity _ = True"

fun js_gt :: "number \<Rightarrow> number \<Rightarrow> bool" where
  "js_gt NaN _ = False"
| "js_gt _ NaN = False"
| "js_gt (Finite x) (Finite y) = (y < x)"
| "js_gt (Finite x) Infinity = False"
| "js_gt (Finite x) NegInfinity = True"
| "js_gt Infinity b = (b \<noteq> Infinity)"
| "js_gt NegInfinity _ = False"

fun Math_ceil :: "number \<Rightarrow> number" where
  "Math_ceil (Finite x) = Finite (of_int \<lceil>x\<rceil>)"
| "Math_ceil v = v"

section \<open>Display text\<close>

text \<open>
  The strings a rule shows are template literals. A template is kept as the list of its
  parts, in order: the literal pieces, and the numbers that the JavaScript host still has
  to format, by \<^verbatim>\<open>ToString\<close> (a plain \<^verbatim>\<open>${n}\<close>), by
  \<^verbatim>\<open>toLocaleString()\<close>, which depends on the locale, or by \<^verbatim>\<open>toFixed(d)\<close>.
  The string of the source is the concatenation of the formatted parts. A character of a
  literal outside ASCII stands as its UTF-8 bytes.
\<close>

datatype piece = Lit string | Num number | NumLocale number | NumFixed number nat

type_synonym template = "piece list"

definition le_sign :: string where
  "le_sign = [CHR 0xE2, CHR 0x89, CHR 0xA4]"

definition times_sign :: string where
  "times_sign = [CHR 0xC3, CHR 0x97]"

text \<open>\<^verbatim>\<open>Array.prototype.join\<close> on strings.\<close>

fun join :: "string \<Rightarrow> string list \<Rightarrow> string" where
  "join sep [] = []"
| "join sep [x] = x"
| "join sep (x # y # ys) = x @ sep @ join sep (y # ys)"

section \<open>Model statistics, rule results and the report (src/lib/types.ts)\<close>

text \<open>
  \<^verbatim>\<open>triangleCount\<close> is a number, not an integer: the producer
  (\<^verbatim>\<open>getTriangleCount\<close> of src/lib/gltfUtils.ts) adds \<^verbatim>\<open>index.count / 3\<close> for every
  mesh, unrounded, so a count with a fraction reaches the rules. The other counts (the
  length of an array, the size of a set, the \<^verbatim>\<open>count\<close> of a vertex attribute and a
  counter), the pixel sizes and the file size are integers; the sizes of the bounding
  box and the two ratios of \<^verbatim>\<open>normals\<close> are numbers. The fields of the bounding box
  carry the prefix \<open>bbox_\<close> and three fields of the report the prefix \<open>report_\<close>, to
  keep them apart from the fields of the same name of another record; the field
  \<^verbatim>\<open>id\<close> of a rule is \<open>rule_id\<close> and the field \<^verbatim>\<open>notes\<close> of the report is
  \<open>report_notes\<close>. The categories \<^verbatim>\<open>'Textures/Maps'\<close>, \<^verbatim>\<open>'Normals'\<close>,
  \<^verbatim>\<open>'Skin Weights'\<close> and \<^verbatim>\<open>'File Integrity'\<close> are \<open>Textures_Maps\<close>,
  \<open>Normals_Category\<close>, \<open>Skin_Weights\<close> and \<open>File_Integrity\<close>. An absent optional field
  (\<^verbatim>\<open>skinning\<close>, \<^verbatim>\<open>tip\<close>) is \<open>None\<close>.
\<close>

record Texture =
  name :: string
  width :: int
  height :: int

datatype AlphaMode = OPAQUE | MASK | BLEND

record BBox =
  bbox_width :: number
  bbox_height :: number
  bbox_depth :: number

record Normals =
  invertedVertexRatio :: number
  invertedFaceRatio :: number

record Skinning =
  totalVertices :: int
  badWeightVertices :: int

record ModelStats =
  triangleCount :: number
  materialCountExclAvatarSkin :: int
  textures :: "Texture list"
  usedTextureCount :: int
  hasNormalMaps :: bool
  hasMetallicRoughnessMaps :: bool
  alphaModes :: "AlphaMode list"
  bbox :: BBox
  normals :: Normals
  skinning :: "Skinning option"
  fileSizeBytes :: int

datatype RuleSeverity = PASS | WARN | FAIL

datatype Category =
    Geometry | Materials | Textures_Maps | Normals_Category | Skin_Weights | Dimensions
  | File_Integrity

record RuleResult =
  rule_id :: string
  category :: Category
  expected :: template
  actual :: template
  result :: RuleSeverity
  tip :: "template option"

record ValidationReport =
  overall :: RuleSeverity
  report_targetSlot :: Slot
  appliedTriangleBudget :: int
  report_maxMaterials :: int
  report_maxTextures :: int
  results :: "RuleResult list"
  report_notes :: "string list"
  fileName :: string
  modelStats :: ModelStats

section \<open>The validation rules (src/lib/runValidation.ts)\<close>

text \<open>
  One definition for each function of the source, in its order. The parameter
  \<^verbatim>\<open>modelStats\<close> is \<open>stats\<close>, and the locals \<^verbatim>\<open>actual\<close>, \<^verbatim>\<open>result\<close> and
  \<^verbatim>\<open>tip\<close> are \<open>act\<close>, \<open>res\<close> and \<open>hint\<close>: the source's names are fields of the
  records. On the integer fields subtraction and comparison are exact for numbers below
  \<open>2\<^sup>5\<^sup>3\<close>; on \<^verbatim>\<open>triangleCount\<close> the subtraction rounds as the division and the
  multiplication do.
\<close>

definition validateTriangles :: "ModelStats \<Rightarrow> int \<Rightarrow> RuleResult" where
  "validateTriangles stats maxTriangles =
     (let act = triangleCount stats;
          res = (if js_le act (num maxTriangles) then PASS else FAIL)
      in \<lparr>rule_id = ''triangles'',
          category = Geometry,
          expected = [Lit (le_sign @ '' ''), NumLocale (num maxTriangles), Lit '' triangles''],
          actual = [NumLocale act, Lit '' triangles''],
          result = res,
          tip = (if res = FAIL
                 then Some [Lit ''Reduce triangles by '',
                            Num (Math_ceil (js_mul (js_div (js_sub act (num maxTriangles)) act)
                                                   (num 100))),
                            Lit ''%'']
                 else None)\<rparr>)"

definition validateMaterials :: "ModelStats \<Rightarrow> int \<Rightarrow> RuleResult" where
  "validateMaterials stats maxMats =
     (let act = materialCountExclAvatarSkin stats;
          res = (if act \<le> maxMats then PASS else FAIL)
      in \<lparr>rule_id = ''materials'',
          category = Materials,
          expected = [Lit (le_sign @ '' ''), Num (num maxMats), Lit '' materials''],
          actual = [Num (num act), Lit '' materials''],
          result = res,
          tip = (if res = FAIL
                 then Some [Lit ''Remove '', Num (num (act - maxMats)),
                            Lit '' material(s) or combine similar materials'']
                 else None)\<rparr>)"

definition validateTextures :: "ModelStats \<Rightarrow> int \<Rightarrow> RuleResult" where
  "validateTextures stats maxTexs =
     (let act = usedTextureCount stats;
          res = (if act \<le> maxTexs then PASS else FAIL)
      in \<lparr>rule_id = ''textures'',
          category = Textures_Maps,
          expected = [Lit (le_sign @ '' ''), Num (num maxTexs), Lit '' textures''],
          actual = [Num (num act), Lit '' textures''],
          result = res,
          tip = (if res = FAIL
                 then Some [Lit ''Remove '', Num (num (act - maxTexs)),
                            Lit '' texture(s) or combine similar textures'']
                 else None)\<rparr>)"

definition validateTextureSizes :: "ModelStats \<Rightarrow> RuleResult" where
  "validateTextureSizes stats =
     (let oversizedTextures = filter (\<lambda>t. 1024 < width t \<or> 1024 < height t) (textures stats);
          res = (if length oversizedTextures = 0 then PASS else FAIL)
      in \<lparr>rule_id = ''texture-sizes'',
          category = Textures_Maps,
          expected = [Lit (''All textures '' @ le_sign @ '' 1024'' @ times_sign @ ''1024'')],
          actual = (if length oversizedTextures = 0
                    then [Lit ''All textures within size limit'']
                    else [Num (num (int (length oversizedTextures))),
                          Lit ('' texture(s) exceed 1024'' @ times_sign @ ''1024'')]),
          result = res,
          tip = (if res = FAIL
                 then Some [Lit ''Resize '', Lit (join '', '' (map name oversizedTextures)),
                            Lit ('' to 1024'' @ times_sign @ ''1024 or smaller'')]
                 else None)\<rparr>)"

definition validateTextureSquare :: "ModelStats \<Rightarrow> RuleResult" where
  "validateTextureSquare stats =
     (let nonSquareTextures = filter (\<lambda>t. width t \<noteq> height t) (textures stats);
          res = (if length nonSquareTextures = 0 then PASS else WARN)
      in \<lparr>rule_id = ''texture-square'',
          category = Textures_Maps,
          expected = [Lit ''All textures are square (recommended)''],
          actual = (if length nonSquareTextures = 0
                    then [Lit ''All textures are square'']
                    else [Num (num (int (length nonSquareTextures))),
                          Lit '' texture(s) are not square'']),
          result = res,
          tip = (if res = WARN
                 then Some [Lit ''Make '', Lit (join '', '' (map name nonSquareTextures)),
                            Lit '' square for better performance (optional)'']
                 else None)\<rparr>)"

definition validateNormalMaps :: "ModelStats \<Rightarrow> RuleResult" where
  "validateNormalMaps stats =
     (let res = (if \<not> hasNormalMaps stats then PASS else WARN)
      in \<lparr>rule_id = ''normal-maps'',
          category = Textures_Maps,
          expected = [Lit ''No normal maps (DCL uses toon shader)''],
          actual = (if hasNormalMaps stats then [Lit ''Normal maps detected'']
                    else [Lit ''No normal maps'']),
          result = res,
          tip = (if res = WARN
                 then Some [Lit (''Remove normal maps - DCL uses toon shader that doesn'' @
                                 [CHR 0x27] @ ''t benefit from normal maps'')]
                 else None)\<rparr>)"

definition validateMetallicRoughnessMaps :: "ModelStats \<Rightarrow> RuleResult" where
  "validateMetallicRoughnessMaps stats =
     (let res = (if \<not> hasMetallicRoughnessMaps stats then PASS else WARN)
      in \<lparr>rule_id = ''metallic-roughness-maps'',
          category = Textures_Maps,
          expected = [Lit ''No metallic/roughness maps (DCL uses toon shader)''],
          actual = (if hasMetallicRoughnessMaps stats
                    then [Lit ''Metallic/roughness maps detected'']
                    else [Lit ''No metallic/roughness maps'']),
          result = res,
          tip = (if res = WARN
                 then Some [Lit (''Remove metallic/roughness maps - DCL uses toon shader that doesn'' @
                                 [CHR 0x27] @ ''t benefit from PBR maps'')]
                 else None)\<rparr>)"

text \<open>
  \<^verbatim>\<open>validateSkinWeights\<close>: the ratio is the rounded quotient of the two counts, and the
  thresholds are the literals \<^verbatim>\<open>0.03\<close> and \<^verbatim>\<open>0.005\<close>. A missing \<^verbatim>\<open>tip\<close> is
  \<open>None\<close>.
\<close>

definition validateSkinWeights :: "ModelStats \<Rightarrow> RuleResult" where
  "validateSkinWeights stats =
     (case skinning stats of
        None \<Rightarrow>
          \<lparr>rule_id = ''skin-weights'',
           category = Skin_Weights,
           expected = [Lit ''Valid skin weights''],
           actual = [Lit ''No skinning data''],
           result = PASS,
           tip = None\<rparr>
      | Some sk \<Rightarrow>
          let badRatio = js_div (num (badWeightVertices sk)) (num (totalVertices sk));
              (res, hint) =
                (if js_gt badRatio (lit (3 / 100))
                 then (FAIL, Some [Lit ''Fix skin weights - more than 3% of vertices have invalid weights''])
                 else if js_gt badRatio (lit (5 / 1000))
                 then (WARN, Some [Lit ''Some vertices have invalid skin weights - check weight painting''])
                 else (PASS, None))
          in \<lparr>rule_id = ''skin-weights'',
              category = Skin_Weights,
              expected = [Lit (le_sign @ '' 0.5% vertices with bad weights'')],
              actual = [Num (num (badWeightVertices sk)), Lit ''/'', Num (num (totalVertices sk)),
                        Lit '' vertices ('', NumFixed (js_mul badRatio (num 100)) 2, Lit ''%)''],
              result = res,
              tip = hint\<rparr>)"

definition validateDimensions :: "ModelStats \<Rightarrow> RuleResult" where
  "validateDimensions stats =
     (let maxWidth = lit (242 / 100);
          maxHeight = lit (242 / 100);
          maxDepth = lit (14 / 10);
          exceedsWidth = js_gt (bbox_width (bbox stats)) maxWidth;
          exceedsHeight = js_gt (bbox_height (bbox stats)) maxHeight;
          exceedsDepth = js_gt (bbox_depth (bbox stats)) maxDepth;
          res = (if exceedsWidth \<or> exceedsHeight \<or> exceedsDepth then FAIL else PASS)
      in \<lparr>rule_id = ''dimensions'',
          category = Dimensions,
          expected = [Lit (le_sign @ '' ''), Num maxWidth, Lit (''m '' @ times_sign @ '' ''),
                      Num maxHeight, Lit (''m '' @ times_sign @ '' ''), Num maxDepth, Lit ''m''],
          actual = [NumFixed (bbox_width (bbox stats)) 2, Lit (''m '' @ times_sign @ '' ''),
                    NumFixed (bbox_height (bbox stats)) 2, Lit (''m '' @ times_sign @ '' ''),
                    NumFixed (bbox_depth (bbox stats)) 2, Lit ''m''],
          result = res,
          tip = (if res = FAIL
                 then Some [Lit ''Scale down model to fit within '', Num maxWidth,
                            Lit (''m '' @ times_sign @ '' ''), Num maxHeight,
                            Lit (''m '' @ times_sign @ '' ''), Num maxDepth, Lit ''m bounds'']
                 else None)\<rparr>)"

definition validateFileIntegrity :: "ModelStats \<Rightarrow> RuleResult" where
  "validateFileIntegrity stats =
     (let hasZeroTriangles = (triangleCount stats = num 0);
          hasNoMaterials = (materialCountExclAvatarSkin stats = 0);
          issues = (if hasZeroTriangles then [''No triangles found''] else []) @
                   (if hasNoMaterials then [''No materials found''] else []);
          res = (if length issues = 0 then PASS else FAIL)
      in \<lparr>rule_id = ''file-integrity'',
          category = File_Integrity,
          expected = [Lit ''Valid model structure''],
          actual = (if length issues = 0 then [Lit ''Model structure is valid'']
                    else [Lit (join '', '' issues)]),
          result = res,
          tip = (if res = FAIL
                 then Some [Lit ''Check model export - ensure it contains geometry and materials'']
                 else None)\<rparr>)"

definition validateFileSize :: "ModelStats \<Rightarrow> RuleResult" where
  "validateFileSize stats =
     (let fileSizeMB = js_div (num (fileSizeBytes stats)) (num (1024 * 1024));
          maxSizeMB = num 3;
          recommendedSizeMB = num 1;
          (res, hint) =
            (if js_gt fileSizeMB maxSizeMB
             then (FAIL, Some [Lit ''File size exceeds DCL limit of '', Num maxSizeMB,
                               Lit ''MB. Reduce file size by optimizing textures or simplifying geometry.''])
             else if js_gt fileSizeMB recommendedSizeMB
             then (WARN, Some [Lit ''File size is '', NumFixed fileSizeMB 2,
                               Lit ''MB. For best performance, keep single items under '',
                               Num recommendedSizeMB,
                               Lit ''MB (can be up to 2MB if thumbnail is under 1MB).''])
             else (PASS, None))
      in \<lparr>rule_id = ''file-size'',
          category = File_Integrity,
          expected = [Lit (le_sign @ '' ''), Num maxSizeMB, Lit (''MB (recommended: '' @ le_sign @ '' ''),
                      Num recommendedSizeMB, Lit ''MB)''],
          actual = [NumFixed fileSizeMB 2, Lit ''MB''],
          result = res,
          tip = hint\<rparr>)"

text \<open>\<^verbatim>\<open>calculateOverallResult\<close>: \<^verbatim>\<open>some\<close> is \<open>list_ex\<close>.\<close>

definition calculateOverallResult :: "RuleResult list \<Rightarrow> RuleSeverity" where
  "calculateOverallResult rs =
     (let hasFail = list_ex (\<lambda>r. result r = FAIL) rs;
          hasWarn = list_ex (\<lambda>r. result r = WARN) rs
      in if hasFail then FAIL else if hasWarn then WARN else PASS)"

definition generateNotes :: "ModelStats \<Rightarrow> UserSelection \<Rightarrow> string list" where
  "generateNotes stats userSelection =
     (if targetSlot userSelection = helmet \<and> 0 < length (hiddenSlots userSelection)
      then [''Helmet with hidden slots: triangle budget combines hidden slot budgets.'']
      else []) @
     (if targetSlot userSelection = hands \<and> truthy (handHidesBase userSelection)
      then [''Hand accessory hides base hand: triangle budget increased to 1.5k.'']
      else [])"

text \<open>
  \<^verbatim>\<open>runValidation\<close>: the rules are pushed in this order; the call of the inverted
  normals rule is commented out in the source, and the skin weights rule is pushed only
  when \<^verbatim>\<open>modelStats.skinning\<close> is there.
\<close>

definition runValidation :: "ModelStats \<Rightarrow> UserSelection \<Rightarrow> string \<Rightarrow> ValidationReport" where
  "runValidation stats userSelection file =
     (let budget = computeTriangleBudget userSelection;
          budgetConfig = getBudgetConfig (targetSlot userSelection);
          rs = [validateTriangles stats budget,
                validateMaterials stats (maxMaterials budgetConfig),
                validateTextures stats (maxTextures budgetConfig),
                validateTextureSizes stats,
                validateTextureSquare stats,
                validateNormalMaps stats,
                validateMetallicRoughnessMaps stats] @
               (if skinning stats \<noteq> None then [validateSkinWeights stats] else []) @
               [validateDimensions stats,
                validateFileIntegrity stats,
                validateFileSize stats]
      in \<lparr>overall = calculateOverallResult rs,
          report_targetSlot = targetSlot userSelection,
          appliedTriangleBudget = budget,
          report_maxMaterials = maxMaterials budgetConfig,
          report_maxTextures = maxTextures budgetConfig,
          results = rs,
          report_notes = generateNotes stats userSelection,
          fileName = file,
          modelStats = stats\<rparr>)"

section \<open>The figure of the specification\<close>

text \<open>
  The specification gives the percentage of the triangles tip as
  \<^verbatim>\<open>ceil((actual-budget)/actual*100)\<close>. This is that figure in exact arithmetic, to
  compare with the one the rule computes.
\<close>

definition spec_reduction_percent :: "int \<Rightarrow> int \<Rightarrow> int" where
  "spec_reduction_percent act budget = \<lceil>(of_int (act - budget) :: rat) / of_int act * 100\<rceil>"

section \<open>Fixtures of the tests (src/tests/runValidation.test.ts)\<close>

text \<open>
  \<^verbatim>\<open>createMockModelStats\<close> and \<^verbatim>\<open>createMockUserSelection\<close> without overrides; an
  override of the tests is a record update.
\<close>

definition createMockModelStats :: ModelStats where
  "createMockModelStats =
     \<lparr>triangleCount = num 1000,
      materialCountExclAvatarSkin = 2,
      textures = [\<lparr>name = ''baseColor'', width = 512, height = 512\<rparr>,
                  \<lparr>name = ''emission'', width = 256, height = 256\<rparr>],
      usedTextureCount = 2,
      hasNormalMaps = False,
      hasMetallicRoughnessMaps = False,
      alphaModes = [OPAQUE, MASK],
      bbox = \<lparr>bbox_width = lit 1, bbox_height = lit 2, bbox_depth = lit (5 / 10)\<rparr>,
      normals = \<lparr>invertedVertexRatio = lit (5 / 1000), invertedFaceRatio = lit (1 / 100)\<rparr>,
      skinning = None,
      fileSizeBytes = 500 * 1024\<rparr>"

definition createMockUserSelection :: UserSelection where
  "createMockUserSelection = \<lparr>targetSlot = hat, hiddenSlots = [], handHidesBase = Some False\<rparr>"

section \<open>The triangle budget\<close>

lemma BASE_TRI_BUDGET_pos: "0 < BASE_TRI_BUDGET s"
  by (cases s) simp_all

lemma or_zero_id: "or_zero b = b"
  by (simp add: or_zero_def)

lemma reduce_sum:
  "foldl (\<lambda>sum slot. sum + or_zero (BASE_TRI_BUDGET slot)) a hs =
     a + sum_list (map BASE_TRI_BUDGET hs)"
  by (induction hs arbitrary: a) (simp_all add: or_zero_id)

lemma allHeadHidden_iff:
  "list_all (\<lambda>slot. slot \<in> set hs) HELMET_HIDE_SET \<longleftrightarrow>
     {head, earring, eyewear, tiara, hat, facial_hair, hair, top_head} \<subseteq> set hs"
  by (simp add: HELMET_HIDE_SET_def)

lemma isHelmetSpecialRule_iff:
  "isHelmetSpecialRule sel \<longleftrightarrow>
     targetSlot sel = helmet \<and>
     {head, earring, eyewear, tiara, hat, facial_hair, hair, top_head} \<subseteq> set (hiddenSlots sel)"
  by (simp add: isHelmetSpecialRule_def allHeadHidden_iff)

lemma computeTriangleBudget_cases:
  "computeTriangleBudget sel =
     (if targetSlot sel = skin then 5000
      else if targetSlot sel = hands \<and> handHidesBase sel = Some True then 1500
      else if targetSlot sel = helmet \<and>
              {head, earring, eyewear, tiara, hat, facial_hair, hair, top_head} \<subseteq> set (hiddenSlots sel)
      then 4000
      else BASE_TRI_BUDGET (targetSlot sel) + sum_list (map BASE_TRI_BUDGET (hiddenSlots sel)))"
  unfolding computeTriangleBudget_def Let_def reduce_sum allHeadHidden_iff truthy_def
  by (simp split: option.split)

lemma sum_list_count:
  fixes f :: "'a \<Rightarrow> int"
  shows "sum_list (map f xs) = (\<Sum>x\<in>set xs. int (count_list xs x) * f x)"
proof (induction xs)
  case Nil
  show ?case by simp
next
  case (Cons a xs)
  show ?case
  proof (cases "a \<in> set xs")
    case True
    have "(\<Sum>x\<in>set (a # xs). int (count_list (a # xs) x) * f x) =
          (\<Sum>x\<in>set xs. (if x = a then f a else 0) + int (count_list xs x) * f x)"
      using True by (intro sum.cong) (auto simp: insert_absorb algebra_simps)
    also have "\<dots> = f a + (\<Sum>x\<in>set xs. int (count_list xs x) * f x)"
      using True by (simp add: sum.distrib)
    finally show ?thesis using Cons.IH by simp
  next
    case False
    then have "count_list xs a = 0" by (simp add: count_list_0_iff)
    moreover have "(\<Sum>x\<in>set xs. int (count_list (a # xs) x) * f x) =
                   (\<Sum>x\<in>set xs. int (count_list xs x) * f x)"
      using False by (intro sum.cong) auto
    ultimately show ?thesis using False Cons.IH by simp
  qed
qed

text \<open>
  Claim C1. With the helmet as target, the budget is exactly 4000 as soon as the hidden
  slots hold all eight slots of the head-hide set, in any order and whatever else the
  list holds (other slots, duplicates): the sum is replaced, not added to. When one of
  the eight is missing the budget is the plain sum, the helmet's 1500 plus the base
  budget of every hidden slot.
\<close>

theorem helmet_override:
  assumes "targetSlot sel = helmet"
  shows "computeTriangleBudget sel =
           (if {head, earring, eyewear, tiara, hat, facial_hair, hair, top_head}
                 \<subseteq> set (hiddenSlots sel)
            then 4000
            else 1500 + sum_list (map BASE_TRI_BUDGET (hiddenSlots sel)))"
  using assms by (simp add: computeTriangleBudget_cases)

text \<open>
  All eight slots in another order, with a duplicate and a slot from outside the set,
  give 4000; three of the eight give \<open>1500 + 500 + 500 + 500 = 3000\<close>.
\<close>

theorem helmet_override_witness:
  "computeTriangleBudget
     \<lparr>targetSlot = helmet,
      hiddenSlots = [top_head, hair, facial_hair, hat, hat, feet, tiara, eyewear, earring, head],
      handHidesBase = Some False\<rparr> = 4000 \<and>
   computeTriangleBudget
     \<lparr>targetSlot = helmet, hiddenSlots = [head, earring, eyewear], handHidesBase = Some False\<rparr>
     = 3000"
  using helmet_override
          [of "\<lparr>targetSlot = helmet,
                 hiddenSlots = [top_head, hair, facial_hair, hat, hat, feet, tiara, eyewear, earring, head],
                 handHidesBase = Some False\<rparr>"]
        helmet_override
          [of "\<lparr>targetSlot = helmet, hiddenSlots = [head, earring, eyewear],
                 handHidesBase = Some False\<rparr>"]
  by simp

text \<open>
  Claim C2. With skin as target the budget is exactly 5000, for every list of hidden
  slots and every value of \<^verbatim>\<open>handHidesBase\<close> (also an absent one).
\<close>

theorem skin_budget:
  "computeTriangleBudget \<lparr>targetSlot = skin, hiddenSlots = hs, handHidesBase = hb\<rparr> = 5000"
  by (simp add: computeTriangleBudget_def)

text \<open>
  Claim C3. When the target is not skin, is not hands with \<^verbatim>\<open>handHidesBase\<close> set, and
  the helmet override does not apply, the budget is the base budget of the target plus
  the sum of the base budgets over the list of hidden slots. The list is not
  deduplicated: in the sum every slot counts as many times as it occurs.
\<close>

theorem additive_budget:
  assumes "targetSlot sel \<noteq> skin"
    and "\<not> (targetSlot sel = hands \<and> handHidesBase sel = Some True)"
    and "\<not> (targetSlot sel = helmet \<and>
             {head, earring, eyewear, tiara, hat, facial_hair, hair, top_head}
               \<subseteq> set (hiddenSlots sel))"
  shows "computeTriangleBudget sel =
           BASE_TRI_BUDGET (targetSlot sel) + sum_list (map BASE_TRI_BUDGET (hiddenSlots sel)) \<and>
         sum_list (map BASE_TRI_BUDGET (hiddenSlots sel)) =
           (\<Sum>s\<in>set (hiddenSlots sel). int (count_list (hiddenSlots sel) s) * BASE_TRI_BUDGET s)"
proof
  show "computeTriangleBudget sel =
          BASE_TRI_BUDGET (targetSlot sel) + sum_list (map BASE_TRI_BUDGET (hiddenSlots sel))"
    using assms by (auto simp add: computeTriangleBudget_cases)
  show "sum_list (map BASE_TRI_BUDGET (hiddenSlots sel)) =
          (\<Sum>s\<in>set (hiddenSlots sel). int (count_list (hiddenSlots sel) s) * BASE_TRI_BUDGET s)"
    by (rule sum_list_count)
qed

text \<open>Hiding \<open>feet\<close> twice adds its 1500 twice.\<close>

theorem additive_budget_witness:
  "computeTriangleBudget
     \<lparr>targetSlot = upper_body, hiddenSlots = [feet, feet], handHidesBase = None\<rparr> = 4500 \<and>
   computeTriangleBudget
     \<lparr>targetSlot = upper_body, hiddenSlots = [feet], handHidesBase = None\<rparr> = 3000"
  using additive_budget
          [of "\<lparr>targetSlot = upper_body, hiddenSlots = [feet, feet], handHidesBase = None\<rparr>"]
        additive_budget
          [of "\<lparr>targetSlot = upper_body, hiddenSlots = [feet], handHidesBase = None\<rparr>"]
  by simp

text \<open>
  Claim C4. With hands as target and \<^verbatim>\<open>handHidesBase\<close> true the budget is exactly
  1500 for every list of hidden slots, which are not summed; the plain base budget of
  hands, returned when the flag is false and nothing is hidden, is 1000.
\<close>

theorem hands_hiding_base_budget:
  "computeTriangleBudget \<lparr>targetSlot = hands, hiddenSlots = hs, handHidesBase = Some True\<rparr> = 1500 \<and>
   computeTriangleBudget \<lparr>targetSlot = hands, hiddenSlots = [], handHidesBase = Some False\<rparr> = 1000 \<and>
   BASE_TRI_BUDGET hands = 1000"
  by (simp add: computeTriangleBudget_cases)

lemma sum_list_BASE_nonneg: "0 \<le> sum_list (map BASE_TRI_BUDGET hs)"
  by (induction hs) (simp_all add: less_imp_le [OF BASE_TRI_BUDGET_pos])

lemma computeTriangleBudget_pos: "0 < computeTriangleBudget sel"
  using BASE_TRI_BUDGET_pos [of "targetSlot sel"] sum_list_BASE_nonneg [of "hiddenSlots sel"]
  by (simp add: computeTriangleBudget_cases)

section \<open>Rounding to the nearest number\<close>

text \<open>
  \<open>binade\<close> is the floor of the binary logarithm, significands have 53 bits, and
  rounding is monotone; with the value of \<open>fl\<close> at a few rationals this is all the rules
  below need.
\<close>

lemma bitlen_pos: "0 < n \<Longrightarrow> 1 \<le> bitlen n"
  using bitlen_eq_zero_iff [of n] bitlen_nonneg [of n] by linarith

lemma binade_bounds:
  assumes "0 < x"
  shows "2 powi (binade x) \<le> x" and "x < 2 powi (binade x + 1)"
proof -
  have "2 powi (binade x) \<le> x \<and> x < 2 powi (binade x + 1)"
  proof (cases "1 \<le> x")
    case True
    define n where "n = \<lfloor>x\<rfloor>"
    define k where "k = bitlen n - 1"
    have n: "1 \<le> n" using True by (simp add: n_def)
    then have k: "0 \<le> k" using bitlen_pos [of n] by (simp add: k_def)
    have b: "2 ^ nat k \<le> n" "n < 2 ^ nat (k + 1)"
      using bitlen_bounds [of n] n by (simp_all add: k_def)
    have eq: "binade x = k" using True by (simp add: binade_def n_def k_def)
    have "(2::rat) powi k = of_int (2 ^ nat k)"
      using k by (simp add: power_int_nonneg_exp)
    also have "\<dots> \<le> of_int n" using b(1) by (simp only: of_int_le_iff)
    also have "\<dots> \<le> x" by (simp add: n_def)
    finally have lo: "2 powi k \<le> x" .
    have "x < of_int (n + 1)" using floor_correct [of x] by (simp add: n_def)
    also have "\<dots> \<le> of_int (2 ^ nat (k + 1))"
    proof -
      have "n + 1 \<le> 2 ^ nat (k + 1)" using b(2) by simp
      then show ?thesis by (simp only: of_int_le_iff)
    qed
    also have "\<dots> = (2::rat) powi (k + 1)"
      using k by (simp add: power_int_nonneg_exp)
    finally have hi: "x < 2 powi (k + 1)" .
    from lo hi eq show ?thesis by simp
  next
    case False
    define y where "y = 1 / x"
    define m where "m = \<lceil>y\<rceil> - 1"
    define j where "j = bitlen m"
    have y: "1 < y" using False assms by (simp add: y_def)
    have x: "x = 1 / y" using assms by (simp add: y_def)
    have ypos: "0 < y" using y by simp
    have m: "1 \<le> m" using y by (simp add: m_def)
    have my: "of_int m < y" "y \<le> of_int (m + 1)"
      using ceiling_correct [of y] by (simp_all add: m_def)
    have j: "1 \<le> j" using bitlen_pos [of m] m by (simp add: j_def)
    have b: "2 ^ nat (j - 1) \<le> m" "m < 2 ^ nat j"
      using bitlen_bounds [of m] m by (simp_all add: j_def)
    have eq: "binade x = - j" using False by (simp add: binade_def y_def m_def j_def)
    have "y \<le> of_int (2 ^ nat j)"
    proof -
      have "m + 1 \<le> 2 ^ nat j" using b(2) by simp
      then have "(of_int (m + 1) :: rat) \<le> of_int (2 ^ nat j)" by (simp only: of_int_le_iff)
      with my(2) show ?thesis by linarith
    qed
    then have "y \<le> 2 powi j" using j by (simp add: power_int_nonneg_exp)
    then have "1 / (2 powi j) \<le> 1 / y"
      using ypos by (simp add: frac_le)
    then have lo: "2 powi (- j) \<le> x"
      by (simp add: power_int_minus x inverse_eq_divide)
    have "(of_int (2 ^ nat (j - 1)) :: rat) \<le> of_int m"
      using b(1) by (simp only: of_int_le_iff)
    then have "(2::rat) powi (j - 1) \<le> of_int m"
      using j by (simp add: power_int_nonneg_exp)
    with my(1) have "(2::rat) powi (j - 1) < y" by linarith
    moreover have "(0::rat) < 2 powi (j - 1)" by simp
    ultimately have "1 / y < 1 / (2 powi (j - 1))"
      by (simp add: frac_less2)
    moreover have "(2::rat) powi (- j + 1) = 1 / (2 powi (j - 1))"
      using power_int_minus [of "2::rat" "j - 1"] by (simp add: inverse_eq_divide)
    ultimately have hi: "x < 2 powi (- j + 1)" by (simp add: x)
    from lo hi eq show ?thesis by simp
  qed
  then show "2 powi (binade x) \<le> x" and "x < 2 powi (binade x + 1)" by simp_all
qed

lemma binade_mono:
  assumes "0 < x" "x \<le> y"
  shows "binade x \<le> binade y"
proof (rule ccontr)
  assume "\<not> binade x \<le> binade y"
  then have "binade y + 1 \<le> binade x" by simp
  then have "(2::rat) powi (binade y + 1) \<le> 2 powi (binade x)"
    by (intro power_int_increasing) simp_all
  moreover have "y < 2 powi (binade y + 1)" using assms by (intro binade_bounds) simp
  moreover have "2 powi (binade x) \<le> x" using assms by (intro binade_bounds)
  ultimately show False using assms by linarith
qed

lemma round_half_even_of_int [simp]: "round_half_even (of_int n) = n"
  by (simp add: round_half_even_def)

lemma round_half_even_floor:
  "\<lfloor>x\<rfloor> \<le> round_half_even x" "round_half_even x \<le> \<lfloor>x\<rfloor> + 1"
  by (simp_all add: round_half_even_def Let_def)

lemma round_half_even_mono:
  assumes "x \<le> y"
  shows "round_half_even x \<le> round_half_even y"
proof (cases "\<lfloor>x\<rfloor> = \<lfloor>y\<rfloor>")
  case True
  then show ?thesis
    using assms unfolding round_half_even_def Let_def by auto
next
  case False
  moreover have "\<lfloor>x\<rfloor> \<le> \<lfloor>y\<rfloor>" using assms by (rule floor_mono)
  ultimately have "\<lfloor>x\<rfloor> + 1 \<le> \<lfloor>y\<rfloor>" by simp
  with round_half_even_floor(2) [of x] round_half_even_floor(1) [of y]
  show ?thesis by linarith
qed

lemma fl_pos_eq:
  assumes "0 < x"
  shows "fl x = of_int (round_half_even (x / 2 powi (binade x - 52))) * 2 powi (binade x - 52)"
  using assms by (simp add: fl_def Let_def)

lemma significand_bounds:
  assumes "0 < x"
  shows "2 ^ 52 \<le> round_half_even (x / 2 powi (binade x - 52))"
    and "round_half_even (x / 2 powi (binade x - 52)) \<le> 2 ^ 53"
proof -
  let ?e = "binade x - 52"
  have p: "(0::rat) < 2 powi ?e" by simp
  have split: "(2::rat) powi (binade x) = 2 ^ 52 * 2 powi ?e"
    using power_int_add [of "2::rat" 52 ?e] by simp
  have split': "(2::rat) powi (binade x + 1) = 2 ^ 53 * 2 powi ?e"
    using power_int_add [of "2::rat" 53 ?e] by (simp add: add.commute)
  have "2 ^ 52 * 2 powi ?e \<le> x" using binade_bounds(1) [OF assms] split by simp
  then have lo: "of_int (2 ^ 52) \<le> x / 2 powi ?e"
    using p by (simp add: pos_le_divide_eq)
  have "x < 2 ^ 53 * 2 powi ?e" using binade_bounds(2) [OF assms] split' by simp
  then have hi: "x / 2 powi ?e \<le> of_int (2 ^ 53)"
    using p by (simp add: pos_divide_le_eq)
  show "2 ^ 52 \<le> round_half_even (x / 2 powi ?e)"
    using round_half_even_mono [OF lo] by (simp only: round_half_even_of_int)
  show "round_half_even (x / 2 powi ?e) \<le> 2 ^ 53"
    using round_half_even_mono [OF hi] by (simp only: round_half_even_of_int)
qed

lemma fl_binade_bounds:
  assumes "0 < x"
  shows "2 powi (binade x) \<le> fl x" and "fl x \<le> 2 powi (binade x + 1)"
proof -
  let ?e = "binade x - 52"
  let ?m = "round_half_even (x / 2 powi ?e)"
  have p: "(0::rat) \<le> 2 powi ?e" by simp
  have split: "(2::rat) powi (binade x) = 2 ^ 52 * 2 powi ?e"
    using power_int_add [of "2::rat" 52 ?e] by simp
  have split': "(2::rat) powi (binade x + 1) = 2 ^ 53 * 2 powi ?e"
    using power_int_add [of "2::rat" 53 ?e] by (simp add: add.commute)
  have "(of_int (2 ^ 52) :: rat) \<le> of_int ?m"
    using significand_bounds(1) [OF assms] by (simp only: of_int_le_iff)
  then have "(of_int (2 ^ 52) :: rat) * 2 powi ?e \<le> of_int ?m * 2 powi ?e"
    using p by (rule mult_right_mono)
  then show "2 powi (binade x) \<le> fl x"
    by (simp add: fl_pos_eq [OF assms] split)
  have "(of_int ?m :: rat) \<le> of_int (2 ^ 53)"
    using significand_bounds(2) [OF assms] by (simp only: of_int_le_iff)
  then have "(of_int ?m :: rat) * 2 powi ?e \<le> of_int (2 ^ 53) * 2 powi ?e"
    using p by (rule mult_right_mono)
  then show "fl x \<le> 2 powi (binade x + 1)"
    by (simp add: fl_pos_eq [OF assms] split')
qed

lemma fl_pos: "0 < x \<Longrightarrow> 0 < fl x"
  using fl_binade_bounds(1) [of x] zero_less_power_int [of "2::rat" "binade x"]
  by linarith

lemma fl_mono_pos:
  assumes "0 < x" "x \<le> y"
  shows "fl x \<le> fl y"
proof -
  have y: "0 < y" using assms by simp
  have le: "binade x \<le> binade y" using assms by (rule binade_mono)
  show ?thesis
  proof (cases "binade x = binade y")
    case True
    let ?e = "binade y - 52"
    have "x / 2 powi ?e \<le> y / 2 powi ?e"
      using assms(2) by (simp add: divide_right_mono)
    then have "round_half_even (x / 2 powi ?e) \<le> round_half_even (y / 2 powi ?e)"
      by (rule round_half_even_mono)
    then have "(of_int (round_half_even (x / 2 powi ?e)) :: rat)
                 \<le> of_int (round_half_even (y / 2 powi ?e))"
      by (simp only: of_int_le_iff)
    then have "(of_int (round_half_even (x / 2 powi ?e)) :: rat) * 2 powi ?e
                 \<le> of_int (round_half_even (y / 2 powi ?e)) * 2 powi ?e"
      by (rule mult_right_mono) simp
    then show ?thesis
      by (simp add: fl_pos_eq [OF assms(1)] fl_pos_eq [OF y] True)
  next
    case False
    with le have "binade x + 1 \<le> binade y" by simp
    then have "(2::rat) powi (binade x + 1) \<le> 2 powi (binade y)"
      by (intro power_int_increasing) simp_all
    with fl_binade_bounds(2) [OF assms(1)] fl_binade_bounds(1) [OF y]
    show ?thesis by linarith
  qed
qed

lemma fl_minus: "fl (- x) = - fl x"
  by (simp add: fl_def Let_def)

lemma fl_zero [simp]: "fl 0 = 0"
  by (simp add: fl_def)

lemma fl_mono:
  assumes "x \<le> y"
  shows "fl x \<le> fl y"
proof -
  consider "0 < x" | "x \<le> 0" "0 \<le> y" | "y < 0" by linarith
  then show ?thesis
  proof cases
    case 1
    then show ?thesis using assms by (rule fl_mono_pos)
  next
    case 2
    have "fl x \<le> 0"
    proof (cases "x = 0")
      case True
      then show ?thesis by simp
    next
      case False
      with 2 have "0 < - x" by simp
      then have "0 < fl (- x)" by (rule fl_pos)
      then show ?thesis by (simp add: fl_minus)
    qed
    moreover have "0 \<le> fl y"
    proof (cases "y = 0")
      case True
      then show ?thesis by simp
    next
      case False
      with 2 have "0 < y" by simp
      then have "0 < fl y" by (rule fl_pos)
      then show ?thesis by simp
    qed
    ultimately show ?thesis by simp
  next
    case 3
    then have "0 < - y" "- y \<le> - x" using assms by simp_all
    then have "fl (- y) \<le> fl (- x)" by (rule fl_mono_pos)
    then show ?thesis by (simp add: fl_minus)
  qed
qed

text \<open>The relative error of one rounding is at most \<open>2\<^sup>-\<^sup>5\<^sup>3\<close>.\<close>

lemma round_half_even_error: "\<bar>of_int (round_half_even x) - x\<bar> \<le> 1 / 2"
proof -
  define d where "d = x - of_int \<lfloor>x\<rfloor>"
  have d: "0 \<le> d" "d < 1" using floor_correct [of x] by (simp_all add: d_def)
  have x: "x = of_int \<lfloor>x\<rfloor> + d" by (simp add: d_def)
  consider "d < 1 / 2" | "1 / 2 < d" | "d = 1 / 2" by linarith
  then show ?thesis
  proof cases
    case 1
    then have "round_half_even x = \<lfloor>x\<rfloor>" by (simp add: round_half_even_def d_def)
    then have "of_int (round_half_even x) - x = - d" by (simp add: d_def)
    with 1 d show ?thesis unfolding abs_le_iff by linarith
  next
    case 2
    then have "round_half_even x = \<lfloor>x\<rfloor> + 1" by (simp add: round_half_even_def d_def)
    then have "of_int (round_half_even x) - x = 1 - d" by (simp add: d_def)
    with 2 d show ?thesis unfolding abs_le_iff by linarith
  next
    case 3
    have "round_half_even x = \<lfloor>x\<rfloor> \<or> round_half_even x = \<lfloor>x\<rfloor> + 1"
      using round_half_even_floor [of x] by linarith
    then have "of_int (round_half_even x) - x = - d \<or> of_int (round_half_even x) - x = 1 - d"
      by (auto simp: d_def)
    with 3 show ?thesis unfolding abs_le_iff by auto
  qed
qed

lemma fl_error:
  assumes "0 < x"
  shows "\<bar>fl x - x\<bar> \<le> x / 2 ^ 53"
proof -
  define e where "e = binade x - 52"
  define m where "m = x / 2 powi e"
  have p: "(0::rat) < 2 powi e" by simp
  have xm: "x = m * 2 powi e" by (simp add: m_def)
  have fl: "fl x = of_int (round_half_even m) * 2 powi e"
    using assms by (simp add: fl_pos_eq m_def e_def)
  have "fl x - x = (of_int (round_half_even m) - m) * 2 powi e"
    by (simp add: fl xm [symmetric] algebra_simps m_def)
  then have "\<bar>fl x - x\<bar> = \<bar>of_int (round_half_even m) - m\<bar> * 2 powi e"
    using p by (simp add: abs_mult)
  also have "\<dots> \<le> 1 / 2 * 2 powi e"
    using round_half_even_error [of m] p by (intro mult_right_mono) simp_all
  also have "\<dots> \<le> x / 2 ^ 53"
  proof -
    have "(2::rat) powi (binade x) = 2 ^ 52 * 2 powi e"
      using power_int_add [of "2::rat" 52 e] by (simp add: e_def)
    with binade_bounds(1) [OF assms] have "2 ^ 52 * 2 powi e \<le> x" by simp
    then show ?thesis by (simp add: field_simps)
  qed
  finally show ?thesis .
qed

text \<open>An integer below \<open>2\<^sup>5\<^sup>3\<close> is a number: rounding leaves it as it is.\<close>

lemma fl_of_int:
  fixes k :: int
  assumes "0 < k" "k < 2 ^ 53"
  shows "fl (of_int k) = of_int k"
proof -
  define x :: rat where "x = of_int k"
  define j where "j = nat (52 - binade x)"
  have x: "0 < x" using assms by (simp add: x_def)
  have "binade x < 53"
  proof (rule ccontr)
    assume "\<not> binade x < 53"
    then have "(2::rat) powi 53 \<le> 2 powi (binade x)"
      by (intro power_int_increasing) simp_all
    with binade_bounds(1) [OF x] have "(2::rat) ^ 53 \<le> x" by simp
    moreover have "x < of_int (2 ^ 53)" unfolding x_def using assms(2) by (simp only: of_int_less_iff)
    ultimately show False by simp
  qed
  then have e: "binade x - 52 = - int j" by (simp add: j_def)
  have p: "(2::rat) powi (binade x - 52) = 1 / 2 ^ j"
    unfolding e by (simp add: power_int_minus inverse_eq_divide)
  have "x / 2 powi (binade x - 52) = of_int (k * 2 ^ j)"
    unfolding p by (simp add: x_def)
  then have "round_half_even (x / 2 powi (binade x - 52)) = k * 2 ^ j"
    by (simp only: round_half_even_of_int)
  then have "fl x = of_int (k * 2 ^ j) * (1 / 2 ^ j)"
    by (simp add: fl_pos_eq [OF x] p)
  then show ?thesis by (simp add: x_def)
qed

lemma fl_1: "fl 1 = 1"
  by code_simp

lemma fl_3: "fl 3 = 3"
  by code_simp

lemma fl_100: "fl 100 = 100"
  by code_simp

text \<open>
  Two values every JavaScript console shows: \<^verbatim>\<open>0.1\<close> is the number
  \<open>3602879701896397 / 2\<^sup>5\<^sup>5\<close>, and \<^verbatim>\<open>0.07 * 100\<close> is \<^verbatim>\<open>7.000000000000001\<close>, that is
  \<open>7 + 2\<^sup>-\<^sup>5\<^sup>0\<close>.
\<close>

lemma fl_examples:
  "fl (1 / 10) = 3602879701896397 / 36028797018963968"
  "fl (fl (7 / 100) * 100) = 7 + 1 / 2 ^ 50"
  by code_simp+

section \<open>The report\<close>

lemma results_runValidation:
  "results (runValidation stats sel file) =
     [validateTriangles stats (computeTriangleBudget sel),
      validateMaterials stats (maxMaterials (getBudgetConfig (targetSlot sel))),
      validateTextures stats (maxTextures (getBudgetConfig (targetSlot sel))),
      validateTextureSizes stats,
      validateTextureSquare stats,
      validateNormalMaps stats,
      validateMetallicRoughnessMaps stats] @
     (if skinning stats \<noteq> None then [validateSkinWeights stats] else []) @
     [validateDimensions stats, validateFileIntegrity stats, validateFileSize stats]"
  by (simp add: runValidation_def Let_def)

lemma overall_runValidation:
  "overall (runValidation stats sel file) =
     calculateOverallResult (results (runValidation stats sel file))"
  by (simp add: runValidation_def Let_def)

lemma rule_ids:
  "rule_id (validateTriangles stats b) = ''triangles''"
  "rule_id (validateMaterials stats m) = ''materials''"
  "rule_id (validateTextures stats m) = ''textures''"
  "rule_id (validateTextureSizes stats) = ''texture-sizes''"
  "rule_id (validateTextureSquare stats) = ''texture-square''"
  "rule_id (validateNormalMaps stats) = ''normal-maps''"
  "rule_id (validateMetallicRoughnessMaps stats) = ''metallic-roughness-maps''"
  "rule_id (validateSkinWeights stats) = ''skin-weights''"
  "rule_id (validateDimensions stats) = ''dimensions''"
  "rule_id (validateFileIntegrity stats) = ''file-integrity''"
  "rule_id (validateFileSize stats) = ''file-size''"
  by (simp_all add: validateTriangles_def validateMaterials_def validateTextures_def
      validateTextureSizes_def validateTextureSquare_def validateNormalMaps_def
      validateMetallicRoughnessMaps_def validateSkinWeights_def validateDimensions_def
      validateFileIntegrity_def validateFileSize_def Let_def split: option.split prod.split)

lemma categories:
  "category (validateTriangles stats b) = Geometry"
  "category (validateMaterials stats m) = Materials"
  "category (validateTextures stats m) = Textures_Maps"
  "category (validateTextureSizes stats) = Textures_Maps"
  "category (validateTextureSquare stats) = Textures_Maps"
  "category (validateNormalMaps stats) = Textures_Maps"
  "category (validateMetallicRoughnessMaps stats) = Textures_Maps"
  "category (validateSkinWeights stats) = Skin_Weights"
  "category (validateDimensions stats) = Dimensions"
  "category (validateFileIntegrity stats) = File_Integrity"
  "category (validateFileSize stats) = File_Integrity"
  by (simp_all add: validateTriangles_def validateMaterials_def validateTextures_def
      validateTextureSizes_def validateTextureSquare_def validateNormalMaps_def
      validateMetallicRoughnessMaps_def validateSkinWeights_def validateDimensions_def
      validateFileIntegrity_def validateFileSize_def Let_def split: option.split prod.split)

lemma calculateOverallResult_iff:
  "calculateOverallResult rs =
     (if \<exists>r\<in>set rs. result r = FAIL then FAIL
      else if \<exists>r\<in>set rs. result r = WARN then WARN
      else PASS)"
  by (simp add: calculateOverallResult_def Let_def list_ex_iff)

lemma find_triangles:
  "find (\<lambda>r. rule_id r = ''triangles'') (results (runValidation stats sel file)) =
     Some (validateTriangles stats (computeTriangleBudget sel))"
  by (simp add: results_runValidation rule_ids)

lemma find_skin_weights:
  "skinning stats \<noteq> None \<Longrightarrow>
   find (\<lambda>r. rule_id r = ''skin-weights'') (results (runValidation stats sel file)) =
     Some (validateSkinWeights stats)"
  by (simp add: results_runValidation rule_ids)

lemma find_file_size:
  "find (\<lambda>r. rule_id r = ''file-size'') (results (runValidation stats sel file)) =
     Some (validateFileSize stats)"
  by (simp add: results_runValidation rule_ids)

text \<open>
  Claim C5. The \<^verbatim>\<open>overall\<close> field of the report of \<^verbatim>\<open>runValidation\<close> is FAIL if at
  least one result of the report is FAIL, whatever warnings there are; otherwise WARN if at
  least one result is WARN; otherwise PASS. It is PASS exactly when every result is PASS.
\<close>

theorem overall_severity:
  "overall (runValidation stats sel file) =
     (if \<exists>r\<in>set (results (runValidation stats sel file)). result r = FAIL then FAIL
      else if \<exists>r\<in>set (results (runValidation stats sel file)). result r = WARN then WARN
      else PASS) \<and>
   (overall (runValidation stats sel file) = PASS \<longleftrightarrow>
      (\<forall>r\<in>set (results (runValidation stats sel file)). result r = PASS))"
proof -
  let ?rs = "results (runValidation stats sel file)"
  have a: "overall (runValidation stats sel file) =
     (if \<exists>r\<in>set ?rs. result r = FAIL then FAIL
      else if \<exists>r\<in>set ?rs. result r = WARN then WARN else PASS)"
    by (simp only: overall_runValidation calculateOverallResult_iff)
  have b: "(\<forall>r\<in>set ?rs. result r = PASS) \<longleftrightarrow>
           \<not> (\<exists>r\<in>set ?rs. result r = FAIL) \<and> \<not> (\<exists>r\<in>set ?rs. result r = WARN)"
  proof
    assume "\<forall>r\<in>set ?rs. result r = PASS"
    then show "\<not> (\<exists>r\<in>set ?rs. result r = FAIL) \<and> \<not> (\<exists>r\<in>set ?rs. result r = WARN)"
      by auto
  next
    assume h: "\<not> (\<exists>r\<in>set ?rs. result r = FAIL) \<and> \<not> (\<exists>r\<in>set ?rs. result r = WARN)"
    show "\<forall>r\<in>set ?rs. result r = PASS"
    proof
      fix r assume "r \<in> set ?rs"
      with h have "result r \<noteq> FAIL" "result r \<noteq> WARN" by auto
      then show "result r = PASS" by (cases "result r") simp_all
    qed
  qed
  from a b show ?thesis by simp
qed

text \<open>
  The fixture with 2000 triangles (over the hat's 1500) and normal maps has a FAIL and a
  WARN and is FAIL overall; with normal maps alone it is WARN; as it stands it is PASS.
\<close>

theorem overall_severity_witness:
  "overall (runValidation (createMockModelStats\<lparr>triangleCount := num 2000, hasNormalMaps := True\<rparr>)
              createMockUserSelection ''test.glb'') = FAIL \<and>
   overall (runValidation (createMockModelStats\<lparr>hasNormalMaps := True\<rparr>)
              createMockUserSelection ''test.glb'') = WARN \<and>
   overall (runValidation createMockModelStats createMockUserSelection ''test.glb'') = PASS"
proof -
  have a: "map result (results (runValidation
             (createMockModelStats\<lparr>triangleCount := num 2000, hasNormalMaps := True\<rparr>)
             createMockUserSelection ''test.glb'')) =
           [FAIL, PASS, PASS, PASS, PASS, WARN, PASS, PASS, PASS, PASS]"
    by code_simp
  have b: "map result (results (runValidation (createMockModelStats\<lparr>hasNormalMaps := True\<rparr>)
             createMockUserSelection ''test.glb'')) =
           [PASS, PASS, PASS, PASS, PASS, WARN, PASS, PASS, PASS, PASS]"
    by code_simp
  have c: "map result (results (runValidation createMockModelStats
             createMockUserSelection ''test.glb'')) =
           [PASS, PASS, PASS, PASS, PASS, PASS, PASS, PASS, PASS, PASS]"
    by code_simp
  have img: "(\<exists>r\<in>set rs. result r = s) \<longleftrightarrow> s \<in> set (map result rs)"
    for rs :: "RuleResult list" and s
    by auto
  show ?thesis
    using overall_severity
            [of "createMockModelStats\<lparr>triangleCount := num 2000, hasNormalMaps := True\<rparr>"
                createMockUserSelection "''test.glb''"]
          overall_severity
            [of "createMockModelStats\<lparr>hasNormalMaps := True\<rparr>"
                createMockUserSelection "''test.glb''"]
          overall_severity [of createMockModelStats createMockUserSelection "''test.glb''"]
    unfolding img a b c by simp
qed

text \<open>
  Claim C6. The results of the report are the rules \<open>triangles\<close>, \<open>materials\<close>,
  \<open>textures\<close>, \<open>texture-sizes\<close>, \<open>texture-square\<close>, \<open>normal-maps\<close>,
  \<open>metallic-roughness-maps\<close>, then \<open>skin-weights\<close> if and only if \<^verbatim>\<open>stats.skinning\<close>
  is present, then \<open>dimensions\<close>, \<open>file-integrity\<close>, \<open>file-size\<close>, in this order and
  nothing else: no rule of the normals category and no rule \<open>normals-inversion\<close> is in
  the list.
\<close>

theorem results_rule_ids:
  "map rule_id (results (runValidation stats sel file)) =
     [''triangles'', ''materials'', ''textures'', ''texture-sizes'', ''texture-square'',
      ''normal-maps'', ''metallic-roughness-maps''] @
     (if skinning stats = None then [] else [''skin-weights'']) @
     [''dimensions'', ''file-integrity'', ''file-size''] \<and>
   (''skin-weights'' \<in> set (map rule_id (results (runValidation stats sel file)))
      \<longleftrightarrow> skinning stats \<noteq> None) \<and>
   ''normals-inversion'' \<notin> set (map rule_id (results (runValidation stats sel file))) \<and>
   Normals_Category \<notin> set (map category (results (runValidation stats sel file)))"
  by (simp add: results_runValidation rule_ids categories)

text \<open>The fixture without and with skinning data: ten rules, then eleven.\<close>

theorem results_rule_ids_witness:
  "map rule_id (results (runValidation createMockModelStats createMockUserSelection ''test.glb'')) =
     [''triangles'', ''materials'', ''textures'', ''texture-sizes'', ''texture-square'',
      ''normal-maps'', ''metallic-roughness-maps'', ''dimensions'', ''file-integrity'',
      ''file-size''] \<and>
   map rule_id (results (runValidation
       (createMockModelStats\<lparr>skinning := Some \<lparr>totalVertices = 1000, badWeightVertices = 5\<rparr>\<rparr>)
       createMockUserSelection ''test.glb'')) =
     [''triangles'', ''materials'', ''textures'', ''texture-sizes'', ''texture-square'',
      ''normal-maps'', ''metallic-roughness-maps'', ''skin-weights'', ''dimensions'',
      ''file-integrity'', ''file-size'']"
  using results_rule_ids [of createMockModelStats createMockUserSelection "''test.glb''"]
        results_rule_ids
          [of "createMockModelStats\<lparr>skinning := Some \<lparr>totalVertices = 1000, badWeightVertices = 5\<rparr>\<rparr>"
              createMockUserSelection "''test.glb''"]
  by (simp add: createMockModelStats_def)

section \<open>The skin weights rule\<close>

text \<open>
  A ratio of two integers above a threshold \<open>p / q\<close> is above it by at least
  \<open>1 / (q * t)\<close>, where \<open>t\<close> is the denominator. For \<open>t\<close> up to \<open>2\<^sup>5\<^sup>3\<close> that is enough
  for the rounded ratio to be above the rounded threshold, for both thresholds of the rule.
\<close>

lemma above_threshold:
  fixes b t p q :: int
  assumes "0 < t" "t \<le> 2 ^ 53" "0 < q"
    and "(of_int p / of_int q :: rat) < of_int b / of_int t"
  shows "(of_int p / of_int q :: rat) + 1 / (of_int q * 2 ^ 53) \<le> of_int b / of_int t"
proof -
  have t: "(0::rat) < of_int t" and q: "(0::rat) < of_int q" using assms by simp_all
  have "(of_int (p * t) :: rat) < of_int (b * q)"
    using assms(4) t q by (simp add: field_simps)
  then have "p * t < b * q" by (simp only: of_int_less_iff)
  then have "p * t + 1 \<le> b * q" by simp
  then have "(of_int (p * t + 1) :: rat) \<le> of_int (b * q)" by (simp only: of_int_le_iff)
  then have "(of_int (p * t + 1) :: rat) / (of_int q * of_int t)
               \<le> of_int (b * q) / (of_int q * of_int t)"
    using t q by (intro divide_right_mono) simp_all
  moreover have "(of_int (p * t + 1) :: rat) / (of_int q * of_int t) =
                   of_int p / of_int q + 1 / (of_int q * of_int t)"
    using t q by (simp add: add_divide_distrib)
  moreover have "(of_int (b * q) :: rat) / (of_int q * of_int t) = of_int b / of_int t"
    using t q by simp
  ultimately have "(of_int p / of_int q :: rat) + 1 / (of_int q * of_int t) \<le> of_int b / of_int t"
    by simp
  moreover have "(1 :: rat) / (of_int q * 2 ^ 53) \<le> 1 / (of_int q * of_int t)"
  proof -
    have "(of_int t :: rat) \<le> of_int (2 ^ 53)" using assms(2) by (simp only: of_int_le_iff)
    then have "(of_int q :: rat) * of_int t \<le> of_int q * 2 ^ 53"
      using q by simp
    moreover have "(0::rat) < of_int q * of_int t" using t q by simp
    ultimately show ?thesis by (simp add: frac_le)
  qed
  ultimately show ?thesis by linarith
qed

lemma fl_fail_gap: "fl (3 / 100) < fl (3 / 100 + 1 / (100 * 2 ^ 53))"
  by code_simp

lemma fl_warn_gap: "fl (5 / 1000) < fl (1 / 200 + 1 / (200 * 2 ^ 53))"
  by code_simp

lemma gt_fail_threshold:
  fixes b t :: int
  assumes "0 < t" "t \<le> 2 ^ 53"
  shows "fl (3 / 100) < fl (of_int b / of_int t) \<longleftrightarrow> (3 / 100 :: rat) < of_int b / of_int t"
proof
  assume above: "fl (3 / 100) < fl (of_int b / of_int t)"
  show "(3 / 100 :: rat) < of_int b / of_int t"
  proof (rule ccontr)
    assume "\<not> (3 / 100 :: rat) < of_int b / of_int t"
    then have "(of_int b / of_int t :: rat) \<le> 3 / 100" by (simp only: not_less)
    from fl_mono [OF this] above show False by (blast dest: leD)
  qed
next
  assume "(3 / 100 :: rat) < of_int b / of_int t"
  then have "(of_int 3 / of_int 100 :: rat) < of_int b / of_int t" by simp
  from above_threshold [OF assms _ this]
  have "(3 / 100 :: rat) + 1 / (100 * 2 ^ 53) \<le> of_int b / of_int t" by simp
  from fl_mono [OF this] fl_fail_gap show "fl (3 / 100) < fl (of_int b / of_int t)"
    by linarith
qed

lemma gt_warn_threshold:
  fixes b t :: int
  assumes "0 < t" "t \<le> 2 ^ 53"
  shows "fl (5 / 1000) < fl (of_int b / of_int t) \<longleftrightarrow> (5 / 1000 :: rat) < of_int b / of_int t"
proof
  assume above: "fl (5 / 1000) < fl (of_int b / of_int t)"
  show "(5 / 1000 :: rat) < of_int b / of_int t"
  proof (rule ccontr)
    assume "\<not> (5 / 1000 :: rat) < of_int b / of_int t"
    then have "(of_int b / of_int t :: rat) \<le> 5 / 1000" by (simp only: not_less)
    from fl_mono [OF this] above show False by (blast dest: leD)
  qed
next
  assume "(5 / 1000 :: rat) < of_int b / of_int t"
  then have "(of_int 1 / of_int 200 :: rat) < of_int b / of_int t" by simp
  from above_threshold [OF assms _ this]
  have "(1 / 200 :: rat) + 1 / (200 * 2 ^ 53) \<le> of_int b / of_int t" by simp
  from fl_mono [OF this] fl_warn_gap show "fl (5 / 1000) < fl (of_int b / of_int t)"
    by linarith
qed

text \<open>
  Claim C7, as amended. With skinning data present and \<open>0 < totalVertices < 2\<^sup>5\<^sup>3\<close>, the
  range in which a JavaScript number holds every integer, the severity of the
  \<open>skin-weights\<close> result follows the exact ratio
  \<open>badRatio = badWeightVertices / totalVertices\<close> with exclusive boundaries: PASS when
  \<open>badRatio \<le> 0.005\<close>, WARN when \<open>0.005 < badRatio \<le> 0.03\<close>, FAIL when
  \<open>0.03 < badRatio\<close>. In particular a ratio of exactly 0.005 is PASS and one of exactly
  0.03 is WARN.
\<close>

theorem skin_weights_thresholds:
  assumes "skinning stats = Some sk"
    and "0 < totalVertices sk" and "totalVertices sk < 2 ^ 53"
  shows "find (\<lambda>r. rule_id r = ''skin-weights'') (results (runValidation stats sel file)) =
           Some (validateSkinWeights stats) \<and>
         result (validateSkinWeights stats) =
           (if (of_int (badWeightVertices sk) / of_int (totalVertices sk) :: rat) \<le> 5 / 1000
            then PASS
            else if (of_int (badWeightVertices sk) / of_int (totalVertices sk) :: rat) \<le> 3 / 100
            then WARN
            else FAIL)"
proof -
  define r :: rat where "r = of_int (badWeightVertices sk) / of_int (totalVertices sk)"
  have t: "0 < totalVertices sk" "totalVertices sk \<le> 2 ^ 53" using assms by simp_all
  have ne: "(of_int (totalVertices sk) :: rat) \<noteq> 0" using assms by simp
  have ratio: "js_div (num (badWeightVertices sk)) (num (totalVertices sk)) = Finite (fl r)"
    using ne by (simp add: num_def r_def)
  have res: "result (validateSkinWeights stats) =
               (if fl (3 / 100) < fl r then FAIL
                else if fl (5 / 1000) < fl r then WARN
                else PASS)"
    using assms(1) by (simp add: validateSkinWeights_def ratio lit_def Let_def)
  have fail: "fl (3 / 100) < fl r \<longleftrightarrow> 3 / 100 < r"
    unfolding r_def by (rule gt_fail_threshold [OF t])
  have warn: "fl (5 / 1000) < fl r \<longleftrightarrow> 5 / 1000 < r"
    unfolding r_def by (rule gt_warn_threshold [OF t])
  have "result (validateSkinWeights stats) =
          (if r \<le> 5 / 1000 then PASS else if r \<le> 3 / 100 then WARN else FAIL)"
  proof -
    consider "r \<le> 5 / 1000" | "5 / 1000 < r" "r \<le> 3 / 100" | "3 / 100 < r" by linarith
    then show ?thesis
    proof cases
      case 1
      then have "\<not> 5 / 1000 < r" "\<not> 3 / 100 < r" by linarith+
      with 1 show ?thesis unfolding res fail warn by (simp only: if_True if_False)
    next
      case 2
      then have "\<not> r \<le> 5 / 1000" "\<not> 3 / 100 < r" by linarith+
      with 2 show ?thesis unfolding res fail warn by (simp only: if_True if_False)
    next
      case 3
      then have "\<not> r \<le> 5 / 1000" "\<not> r \<le> 3 / 100" by linarith+
      with 3 show ?thesis unfolding res fail warn by (simp only: if_True if_False)
    qed
  qed
  moreover have "find (\<lambda>r. rule_id r = ''skin-weights'') (results (runValidation stats sel file)) =
          Some (validateSkinWeights stats)"
    using assms(1) by (simp add: find_skin_weights)
  ultimately show ?thesis unfolding r_def by (simp only: simp_thms)
qed

text \<open>
  The ratios of the tests, and the two boundaries: 5 of 1000 (exactly 0.005) is PASS, 10
  of 1000 is WARN, 30 of 1000 (exactly 0.03) is WARN, 50 of 1000 is FAIL.
\<close>

theorem skin_weights_thresholds_witness:
  "result (validateSkinWeights
     (createMockModelStats\<lparr>skinning := Some \<lparr>totalVertices = 1000, badWeightVertices = 5\<rparr>\<rparr>)) = PASS \<and>
   result (validateSkinWeights
     (createMockModelStats\<lparr>skinning := Some \<lparr>totalVertices = 1000, badWeightVertices = 10\<rparr>\<rparr>)) = WARN \<and>
   result (validateSkinWeights
     (createMockModelStats\<lparr>skinning := Some \<lparr>totalVertices = 1000, badWeightVertices = 30\<rparr>\<rparr>)) = WARN \<and>
   result (validateSkinWeights
     (createMockModelStats\<lparr>skinning := Some \<lparr>totalVertices = 1000, badWeightVertices = 50\<rparr>\<rparr>)) = FAIL"
  using skin_weights_thresholds
          [of "createMockModelStats\<lparr>skinning := Some \<lparr>totalVertices = 1000, badWeightVertices = 5\<rparr>\<rparr>"
              "\<lparr>totalVertices = 1000, badWeightVertices = 5\<rparr>" createMockUserSelection "''test.glb''"]
        skin_weights_thresholds
          [of "createMockModelStats\<lparr>skinning := Some \<lparr>totalVertices = 1000, badWeightVertices = 10\<rparr>\<rparr>"
              "\<lparr>totalVertices = 1000, badWeightVertices = 10\<rparr>" createMockUserSelection "''test.glb''"]
        skin_weights_thresholds
          [of "createMockModelStats\<lparr>skinning := Some \<lparr>totalVertices = 1000, badWeightVertices = 30\<rparr>\<rparr>"
              "\<lparr>totalVertices = 1000, badWeightVertices = 30\<rparr>" createMockUserSelection "''test.glb''"]
        skin_weights_thresholds
          [of "createMockModelStats\<lparr>skinning := Some \<lparr>totalVertices = 1000, badWeightVertices = 50\<rparr>\<rparr>"
              "\<lparr>totalVertices = 1000, badWeightVertices = 50\<rparr>" createMockUserSelection "''test.glb''"]
  by simp

text \<open>
  Claim C7 as stated, for every \<open>totalVertices > 0\<close>, fails beyond that range. With
  100000000000000032 vertices, 3000000000000001 of them bad, both counts are numbers and
  the exact ratio is above 0.03 by \<open>4 \<times> 10\<^sup>-\<^sup>1\<^sup>9\<close>, less than half the distance between two
  numbers near 0.03: the quotient rounds to the very number that the literal
  \<^verbatim>\<open>0.03\<close> denotes, the test \<^verbatim>\<open>badRatio > 0.03\<close> is false, and the rule says WARN.
\<close>

theorem skin_weights_counterexample:
  "result (validateSkinWeights
     (createMockModelStats\<lparr>skinning :=
        Some \<lparr>totalVertices = 100000000000000032, badWeightVertices = 3000000000000001\<rparr>\<rparr>)) = WARN \<and>
   (3 / 100 :: rat) < of_int 3000000000000001 / of_int 100000000000000032 \<and>
   js_div (num 3000000000000001) (num 100000000000000032) = lit (3 / 100) \<and>
   fl (of_int 100000000000000032) = of_int 100000000000000032 \<and>
   fl (of_int 3000000000000001) = of_int 3000000000000001"
proof -
  have "result (validateSkinWeights
     (createMockModelStats\<lparr>skinning :=
        Some \<lparr>totalVertices = 100000000000000032, badWeightVertices = 3000000000000001\<rparr>\<rparr>)) = WARN"
    by code_simp
  moreover have "(3 / 100 :: rat) < of_int 3000000000000001 / of_int 100000000000000032"
    by simp
  moreover have "js_div (num 3000000000000001) (num 100000000000000032) = lit (3 / 100)"
    by code_simp
  moreover have "fl (of_int 100000000000000032) = of_int 100000000000000032"
    by code_simp
  moreover have "fl (of_int 3000000000000001) = of_int 3000000000000001"
    by code_simp
  ultimately show ?thesis by (simp only: simp_thms)
qed

section \<open>The triangles rule\<close>

text \<open>
  For an integer count below \<open>2\<^sup>5\<^sup>3\<close> the subtraction is exact, and the figure of the tip
  is the ceiling of a quotient rounded twice, at most \<open>200 / 2\<^sup>5\<^sup>3\<close> away from the exact
  percentage. With fewer than \<open>2\<^sup>4\<^sup>4\<close> triangles it is therefore the exact ceiling, unless
  the exact percentage is a whole number, where the rounding can carry it to the next
  integer.
\<close>

lemma num_eq_iff [simp]: "num p = num q \<longleftrightarrow> p = q"
  by (simp add: num_def)

lemma percent_value:
  fixes n b :: int
  assumes "0 < b" "b < n" "n < 2 ^ 53"
  shows "Math_ceil (js_mul (js_div (js_sub (num n) (num b)) (num n)) (num 100)) =
           num \<lceil>fl (fl (of_int (n - b) / of_int n) * 100)\<rceil>"
    and "1 \<le> \<lceil>fl (fl (of_int (n - b) / of_int n) * 100)\<rceil>"
    and "\<lceil>fl (fl (of_int (n - b) / of_int n) * 100)\<rceil> \<le> 100"
proof -
  define x :: rat where "x = of_int (n - b) / of_int n"
  define y where "y = fl (fl x * 100)"
  have n: "(0::rat) < of_int n" using assms by simp
  have x0: "0 < x" using assms n by (simp add: x_def)
  have x1: "x \<le> 1" using assms n by (simp add: x_def)
  have f0: "0 < fl x" using x0 by (rule fl_pos)
  have f1: "fl x \<le> 1" using fl_mono [OF x1] by (simp add: fl_1)
  have y0: "0 < y" unfolding y_def using f0 by (intro fl_pos) simp
  have "fl x * 100 \<le> 100" using f1 by simp
  then have y1: "y \<le> 100" unfolding y_def using fl_mono [of "fl x * 100" 100] by (simp add: fl_100)
  have "fl (of_int (n - b)) = (of_int (n - b) :: rat)"
    using assms by (intro fl_of_int) simp_all
  then have sub: "js_sub (num n) (num b) = num (n - b)"
    by (simp add: num_def)
  show "Math_ceil (js_mul (js_div (js_sub (num n) (num b)) (num n)) (num 100)) =
           num \<lceil>fl (fl (of_int (n - b) / of_int n) * 100)\<rceil>"
    unfolding sub using n by (simp add: num_def)
  show "1 \<le> \<lceil>fl (fl (of_int (n - b) / of_int n) * 100)\<rceil>"
    using y0 by (simp add: y_def x_def)
  show "\<lceil>fl (fl (of_int (n - b) / of_int n) * 100)\<rceil> \<le> 100"
    using y1 by (simp add: ceiling_le_iff y_def x_def)
qed

lemma percent_close:
  fixes x :: rat
  assumes "0 < x" "x \<le> 1"
  shows "\<bar>fl (fl x * 100) - x * 100\<bar> \<le> 200 / 2 ^ 53"
proof -
  have a0: "0 < fl x" using assms(1) by (rule fl_pos)
  have a1: "fl x \<le> 1" using fl_mono [OF assms(2)] by (simp add: fl_1)
  have e1: "\<bar>fl x - x\<bar> \<le> 1 / 2 ^ 53"
  proof -
    have "x / 2 ^ 53 \<le> 1 / 2 ^ 53" using assms(2) by (simp add: divide_right_mono)
    with fl_error [OF assms(1)] show ?thesis by linarith
  qed
  have e2: "\<bar>fl (fl x * 100) - fl x * 100\<bar> \<le> 100 / 2 ^ 53"
  proof -
    have "0 < fl x * 100" using a0 by simp
    from fl_error [OF this] have "\<bar>fl (fl x * 100) - fl x * 100\<bar> \<le> fl x * 100 / 2 ^ 53" .
    moreover have "fl x * 100 / 2 ^ 53 \<le> 100 / 2 ^ 53"
      using a1 by (simp add: divide_right_mono)
    ultimately show ?thesis by linarith
  qed
  have "\<bar>fl x * 100 - x * 100\<bar> \<le> 100 / 2 ^ 53"
    using e1 by (simp add: abs_if split: if_splits) 
  with e2 show ?thesis by linarith
qed

lemma percent_exact:
  fixes n b :: int
  assumes "0 < b" "b < n" "n < 2 ^ 44"
  shows "\<lceil>of_int (n - b) / of_int n * 100 :: rat\<rceil>
           \<le> \<lceil>fl (fl (of_int (n - b) / of_int n) * 100)\<rceil>"
    and "\<lceil>fl (fl (of_int (n - b) / of_int n) * 100)\<rceil>
           \<le> \<lceil>of_int (n - b) / of_int n * 100 :: rat\<rceil> + 1"
    and "\<not> n dvd 100 * (n - b) \<Longrightarrow>
         \<lceil>fl (fl (of_int (n - b) / of_int n) * 100)\<rceil> = \<lceil>of_int (n - b) / of_int n * 100 :: rat\<rceil>"
proof -
  define x :: rat where "x = of_int (n - b) / of_int n"
  define v where "v = x * 100"
  define y where "y = fl (fl x * 100)"
  define E where "E = \<lceil>v\<rceil>"
  define N where "N = 100 * (n - b)"
  have n: "(0::rat) < of_int n" using assms by simp
  have x: "0 < x" "x \<le> 1" using assms n by (simp_all add: x_def)
  have close: "\<bar>y - v\<bar> \<le> 200 / 2 ^ 53"
    unfolding y_def v_def by (rule percent_close [OF x])
  have vN: "v = of_int N / of_int n" by (simp add: v_def x_def N_def)
  have inv: "(200 :: rat) / 2 ^ 53 < 1 / of_int n"
  proof -
    have "(of_int n :: rat) < of_int (2 ^ 44)" using assms(3) by (simp only: of_int_less_iff)
    then have "(1 :: rat) / of_int (2 ^ 44) < 1 / of_int n"
      using n by (intro divide_strict_left_mono) simp_all
    then show ?thesis by simp
  qed
  have E: "of_int E - 1 < v" "v \<le> of_int E"
    using ceiling_correct [of v] by (simp_all add: E_def)
  have lowN: "(E - 1) * n + 1 \<le> N"
  proof -
    have "(of_int ((E - 1) * n) :: rat) < of_int N"
      using E(1) n by (simp add: vN field_simps)
    then have "(E - 1) * n < N" by (simp only: of_int_less_iff)
    then show ?thesis by simp
  qed
  have low: "of_int E - 1 + 1 / of_int n \<le> v"
  proof -
    have "(of_int ((E - 1) * n + 1) :: rat) \<le> of_int N"
      using lowN by (simp only: of_int_le_iff)
    then have "(of_int ((E - 1) * n + 1) :: rat) / of_int n \<le> of_int N / of_int n"
      using n by (intro divide_right_mono) simp_all
    moreover have "(of_int ((E - 1) * n + 1) :: rat) / of_int n = of_int E - 1 + 1 / of_int n"
      using n by (simp add: field_simps)
    ultimately show ?thesis by (simp add: vN)
  qed
  have ylow: "of_int E - 1 < y" using low close inv by (simp add: abs_if split: if_splits) 
  have yhigh: "y \<le> of_int (E + 1)" using E(2) close by (simp add: abs_if split: if_splits)
  have 1: "E \<le> \<lceil>y\<rceil>"
  proof -
    have "of_int (E - 1) < y" using ylow by simp
    then have "E - 1 < \<lceil>y\<rceil>" by (simp only: less_ceiling_iff)
    then show ?thesis by simp
  qed
  have 2: "\<lceil>y\<rceil> \<le> E + 1" using yhigh by (simp only: ceiling_le_iff)
  show "\<lceil>of_int (n - b) / of_int n * 100 :: rat\<rceil>
           \<le> \<lceil>fl (fl (of_int (n - b) / of_int n) * 100)\<rceil>"
    using 1 by (simp add: E_def v_def x_def y_def)
  show "\<lceil>fl (fl (of_int (n - b) / of_int n) * 100)\<rceil>
           \<le> \<lceil>of_int (n - b) / of_int n * 100 :: rat\<rceil> + 1"
    using 2 by (simp add: E_def v_def x_def y_def)
  show "\<lceil>fl (fl (of_int (n - b) / of_int n) * 100)\<rceil> = \<lceil>of_int (n - b) / of_int n * 100 :: rat\<rceil>"
    if nd: "\<not> n dvd 100 * (n - b)"
  proof -
    have "N \<le> E * n"
    proof -
      have "(of_int N :: rat) \<le> of_int (E * n)" using E(2) n by (simp add: vN field_simps)
      then show ?thesis by (simp only: of_int_le_iff)
    qed
    moreover have "N \<noteq> E * n" using nd by (auto simp: N_def)
    ultimately have "N + 1 \<le> E * n" by simp
    then have "(of_int (N + 1) :: rat) \<le> of_int (E * n)" by (simp only: of_int_le_iff)
    then have "(of_int (N + 1) :: rat) / of_int n \<le> of_int (E * n) / of_int n"
      using n by (intro divide_right_mono) simp_all
    moreover have "(of_int (N + 1) :: rat) / of_int n = v + 1 / of_int n"
      using n by (simp add: vN field_simps)
    moreover have "(of_int (E * n) :: rat) / of_int n = of_int E" using n by simp
    ultimately have "v + 1 / of_int n \<le> of_int E" by simp
    with close inv have "y \<le> of_int E" by (simp add: abs_if split: if_splits)
    then have "\<lceil>y\<rceil> \<le> E" by (simp only: ceiling_le_iff)
    with 1 have "\<lceil>y\<rceil> = E" by simp
    then show ?thesis by (simp add: E_def v_def x_def y_def)
  qed
qed

text \<open>
  Claim C8, as amended. The \<open>triangles\<close> result of the report is PASS with no tip when
  \<^verbatim>\<open>stats.triangleCount\<close> is at most the budget of \<^verbatim>\<open>computeTriangleBudget\<close> (equality
  included), and FAIL with the tip \<^verbatim>\<open>Reduce triangles by p%\<close> otherwise, that is when
  the count is above the budget. The figure \<open>p\<close> is \<^verbatim>\<open>Math.ceil\<close> of
  \<^verbatim>\<open>((actual - budget) / actual) * 100\<close> as numbers compute it, the difference, the
  quotient and the product each rounded. When the count is an integer below \<open>2\<^sup>5\<^sup>3\<close>,
  \<open>p\<close> is an integer from 1 to 100; when it is an integer below \<open>2\<^sup>4\<^sup>4\<close>, \<open>p\<close> is the exact
  ceiling \<open>ceil((actual - budget) / actual * 100)\<close> or one more, and it is the exact
  ceiling whenever the exact percentage is not a whole number.
\<close>

theorem triangles_rule:
  "find (\<lambda>r. rule_id r = ''triangles'') (results (runValidation stats sel file)) =
     Some (validateTriangles stats (computeTriangleBudget sel)) \<and>
   (if js_le (triangleCount stats) (num (computeTriangleBudget sel))
    then result (validateTriangles stats (computeTriangleBudget sel)) = PASS \<and>
         tip (validateTriangles stats (computeTriangleBudget sel)) = None
    else result (validateTriangles stats (computeTriangleBudget sel)) = FAIL \<and>
         tip (validateTriangles stats (computeTriangleBudget sel)) =
           Some [Lit ''Reduce triangles by '',
                 Num (Math_ceil (js_mul (js_div (js_sub (triangleCount stats)
                                                        (num (computeTriangleBudget sel)))
                                                (triangleCount stats))
                                        (num 100))),
                 Lit ''%'']) \<and>
   (\<forall>q. triangleCount stats = Finite q \<longrightarrow>
        result (validateTriangles stats (computeTriangleBudget sel)) =
          (if q \<le> of_int (computeTriangleBudget sel) then PASS else FAIL) \<and>
        (tip (validateTriangles stats (computeTriangleBudget sel)) = None
           \<longleftrightarrow> q \<le> of_int (computeTriangleBudget sel))) \<and>
   (\<forall>n. triangleCount stats = num n \<and> computeTriangleBudget sel < n \<and> n < 2 ^ 53 \<longrightarrow>
        (\<exists>p. tip (validateTriangles stats (computeTriangleBudget sel)) =
                Some [Lit ''Reduce triangles by '', Num (num p), Lit ''%''] \<and>
              1 \<le> p \<and> p \<le> 100 \<and>
              (n < 2 ^ 44 \<longrightarrow>
                 spec_reduction_percent n (computeTriangleBudget sel) \<le> p \<and>
                 p \<le> spec_reduction_percent n (computeTriangleBudget sel) + 1 \<and>
                 (\<not> n dvd 100 * (n - computeTriangleBudget sel) \<longrightarrow>
                    p = spec_reduction_percent n (computeTriangleBudget sel)))))"
proof -
  define b where "b = computeTriangleBudget sel"
  define r where "r = validateTriangles stats b"
  have b: "0 < b" unfolding b_def by (rule computeTriangleBudget_pos)
  have found: "find (\<lambda>r. rule_id r = ''triangles'') (results (runValidation stats sel file)) = Some r"
    by (simp add: r_def b_def find_triangles)
  have general:
    "if js_le (triangleCount stats) (num b)
     then result r = PASS \<and> tip r = None
     else result r = FAIL \<and>
          tip r = Some [Lit ''Reduce triangles by '',
                        Num (Math_ceil (js_mul (js_div (js_sub (triangleCount stats) (num b))
                                                       (triangleCount stats))
                                               (num 100))),
                        Lit ''%'']"
    by (simp add: r_def validateTriangles_def Let_def)
  have finite:
    "result r = (if q \<le> of_int b then PASS else FAIL) \<and> (tip r = None \<longleftrightarrow> q \<le> of_int b)"
    if "triangleCount stats = Finite q" for q
    using that by (simp add: r_def validateTriangles_def Let_def num_def)
  have integer:
    "\<exists>p. tip r = Some [Lit ''Reduce triangles by '', Num (num p), Lit ''%''] \<and>
         1 \<le> p \<and> p \<le> 100 \<and>
         (n < 2 ^ 44 \<longrightarrow>
            spec_reduction_percent n b \<le> p \<and> p \<le> spec_reduction_percent n b + 1 \<and>
            (\<not> n dvd 100 * (n - b) \<longrightarrow> p = spec_reduction_percent n b))"
    if h: "triangleCount stats = num n \<and> b < n \<and> n < 2 ^ 53" for n
  proof -
    define p where "p = \<lceil>fl (fl (of_int (n - b) / of_int n) * 100)\<rceil>"
    have bn: "b < n" and n53: "n < 2 ^ 53" and count: "triangleCount stats = num n"
      using h by simp_all
    note v = percent_value [OF b bn n53, folded p_def]
    have "\<not> js_le (num n) (num b)" using bn by (simp add: num_def)
    with general count v(1)
    have tip: "tip r = Some [Lit ''Reduce triangles by '', Num (num p), Lit ''%'']"
      by simp
    have exact: "spec_reduction_percent n b \<le> p \<and> p \<le> spec_reduction_percent n b + 1 \<and>
                 (\<not> n dvd 100 * (n - b) \<longrightarrow> p = spec_reduction_percent n b)"
      if "n < 2 ^ 44"
      using percent_exact [OF b bn that] by (simp add: spec_reduction_percent_def p_def)
    from tip v(2,3) exact show ?thesis by (intro exI [of _ p]) simp
  qed
  from found general finite integer show ?thesis
    unfolding r_def b_def by (simp only: simp_thms) blast
qed

text \<open>
  A hat (budget 1500) with 2000 triangles: FAIL, reduce by 25%, the exact figure. An upper
  body hiding the lower body and the feet (budget 4500): 4500 triangles pass with no tip,
  4501 fail with a tip of 1%. A single mesh of 12500 indices gives the count
  \<^verbatim>\<open>12500 / 3\<close>, which is not an integer: on the hat's budget it fails with a tip of
  64%.
\<close>

theorem triangles_rule_witness:
  "result (validateTriangles (createMockModelStats\<lparr>triangleCount := num 2000\<rparr>)
             (computeTriangleBudget createMockUserSelection)) = FAIL \<and>
   tip (validateTriangles (createMockModelStats\<lparr>triangleCount := num 2000\<rparr>)
          (computeTriangleBudget createMockUserSelection)) =
     Some [Lit ''Reduce triangles by '', Num (num 25), Lit ''%''] \<and>
   spec_reduction_percent 2000 1500 = 25 \<and>
   result (validateTriangles (createMockModelStats\<lparr>triangleCount := num 4500\<rparr>) 4500) = PASS \<and>
   tip (validateTriangles (createMockModelStats\<lparr>triangleCount := num 4500\<rparr>) 4500) = None \<and>
   result (validateTriangles (createMockModelStats\<lparr>triangleCount := num 4501\<rparr>) 4500) = FAIL \<and>
   tip (validateTriangles (createMockModelStats\<lparr>triangleCount := num 4501\<rparr>) 4500) =
     Some [Lit ''Reduce triangles by '', Num (num 1), Lit ''%''] \<and>
   result (validateTriangles
             (createMockModelStats\<lparr>triangleCount := js_div (num 12500) (num 3)\<rparr>) 1500) = FAIL \<and>
   tip (validateTriangles
          (createMockModelStats\<lparr>triangleCount := js_div (num 12500) (num 3)\<rparr>) 1500) =
     Some [Lit ''Reduce triangles by '', Num (num 64), Lit ''%'']"
proof -
  let ?sel = "\<lparr>targetSlot = upper_body, hiddenSlots = [lower_body, feet],
               handHidesBase = Some False\<rparr>"
  have b: "computeTriangleBudget ?sel = 4500"
    by (simp add: computeTriangleBudget_cases)
  have h: "computeTriangleBudget createMockUserSelection = 1500"
    by (simp add: computeTriangleBudget_cases createMockUserSelection_def)
  have p25: "Math_ceil (js_mul (js_div (js_sub (num 2000) (num 1500)) (num 2000)) (num 100)) = num 25"
    by code_simp
  have p1: "Math_ceil (js_mul (js_div (js_sub (num 4501) (num 4500)) (num 4501)) (num 100)) = num 1"
    by code_simp
  have p64: "Math_ceil (js_mul (js_div (js_sub (js_div (num 12500) (num 3)) (num 1500))
                                       (js_div (num 12500) (num 3))) (num 100)) = num 64"
    by code_simp
  have le: "\<not> js_le (num 2000) (num 1500)" "js_le (num 4500) (num 4500)"
    "\<not> js_le (num 4501) (num 4500)" "\<not> js_le (js_div (num 12500) (num 3)) (num 1500)"
    by code_simp+
  have e: "spec_reduction_percent 2000 1500 = 25"
    by (simp add: spec_reduction_percent_def)
  show ?thesis
    using triangles_rule [of "createMockModelStats\<lparr>triangleCount := num 2000\<rparr>"
                             createMockUserSelection "''test.glb''"]
          triangles_rule [of "createMockModelStats\<lparr>triangleCount := num 4500\<rparr>" ?sel "''test.glb''"]
          triangles_rule [of "createMockModelStats\<lparr>triangleCount := num 4501\<rparr>" ?sel "''test.glb''"]
          triangles_rule [of "createMockModelStats\<lparr>triangleCount := js_div (num 12500) (num 3)\<rparr>"
                             createMockUserSelection "''test.glb''"]
    unfolding b h by (simp add: p1 p25 p64 le e)
qed

text \<open>
  Claim C8 as stated, with the exact ceiling as the figure, fails: for 10000 triangles on
  the budget of 4500 the exact percentage is 55 and the tip says 56. The quotient is the
  number nearest to 0.55, and its product with 100 rounds to \<^verbatim>\<open>55.00000000000001\<close>,
  which \<^verbatim>\<open>Math.ceil\<close> takes to 56.
\<close>

theorem triangles_tip_counterexample:
  "computeTriangleBudget
     \<lparr>targetSlot = upper_body, hiddenSlots = [lower_body, feet], handHidesBase = Some False\<rparr> = 4500 \<and>
   result (validateTriangles (createMockModelStats\<lparr>triangleCount := num 10000\<rparr>) 4500) = FAIL \<and>
   tip (validateTriangles (createMockModelStats\<lparr>triangleCount := num 10000\<rparr>) 4500) =
     Some [Lit ''Reduce triangles by '', Num (num 56), Lit ''%''] \<and>
   spec_reduction_percent 10000 4500 = 55 \<and>
   js_mul (js_div (js_sub (num 10000) (num 4500)) (num 10000)) (num 100) = Finite (55 + 1 / 2 ^ 47)"
proof -
  have "computeTriangleBudget
     \<lparr>targetSlot = upper_body, hiddenSlots = [lower_body, feet], handHidesBase = Some False\<rparr> = 4500"
    by (simp add: computeTriangleBudget_cases)
  moreover have "result (validateTriangles (createMockModelStats\<lparr>triangleCount := num 10000\<rparr>) 4500) = FAIL"
    by code_simp
  moreover have "tip (validateTriangles (createMockModelStats\<lparr>triangleCount := num 10000\<rparr>) 4500) =
     Some [Lit ''Reduce triangles by '', Num (num 56), Lit ''%'']"
    by code_simp
  moreover have "spec_reduction_percent 10000 4500 = 55"
    by (simp add: spec_reduction_percent_def)
  moreover have "js_mul (js_div (js_sub (num 10000) (num 4500)) (num 10000)) (num 100) =
                   Finite (55 + 1 / 2 ^ 47)"
    by code_simp
  ultimately show ?thesis by (simp only: simp_thms)
qed

text \<open>
  The bound on the figure is for integer counts. The count \<^verbatim>\<open>12500 / 3\<close> of the witness
  is the number nearest to \<open>12500 / 3\<close>, a little above it; the exact percentage at that
  number is a little above 64, with ceiling 65, and the tip says 64: with a fraction in the
  count the figure can also be one below the exact ceiling.
\<close>

lemma triangles_tip_fractional_count:
  "js_div (num 12500) (num 3) = Finite (12500 / 3 + 1 / 3298534883328) \<and>
   \<lceil>((12500 / 3 + 1 / 3298534883328 :: rat) - 1500) / (12500 / 3 + 1 / 3298534883328) * 100\<rceil>
     = (65 :: int) \<and>
   tip (validateTriangles
          (createMockModelStats\<lparr>triangleCount := js_div (num 12500) (num 3)\<rparr>) 1500) =
     Some [Lit ''Reduce triangles by '', Num (num 64), Lit ''%'']"
proof -
  have "js_div (num 12500) (num 3) = Finite (12500 / 3 + 1 / 3298534883328)"
    by code_simp
  moreover have
    "\<lceil>((12500 / 3 + 1 / 3298534883328 :: rat) - 1500) / (12500 / 3 + 1 / 3298534883328) * 100\<rceil>
       = (65 :: int)"
    by code_simp
  moreover have "tip (validateTriangles
          (createMockModelStats\<lparr>triangleCount := js_div (num 12500) (num 3)\<rparr>) 1500) =
     Some [Lit ''Reduce triangles by '', Num (num 64), Lit ''%'']"
    by code_simp
  ultimately show ?thesis by (simp only: simp_thms)
qed

section \<open>The file size rule\<close>

text \<open>
  Claim C9. The \<open>file-size\<close> result is PASS when \<^verbatim>\<open>fileSizeBytes\<close> is at most
  1,048,576 bytes (1MB), WARN when it is above 1,048,576 and at most 3 * 1,048,576 bytes
  (3MB), and FAIL above that: the thresholds are exact in bytes.
\<close>

theorem file_size_thresholds:
  "find (\<lambda>r. rule_id r = ''file-size'') (results (runValidation stats sel file)) =
     Some (validateFileSize stats) \<and>
   result (validateFileSize stats) =
     (if fileSizeBytes stats \<le> 1048576 then PASS
      else if fileSizeBytes stats \<le> 3 * 1048576 then WARN
      else FAIL)"
proof -
  define n where "n = fileSizeBytes stats"
  define x :: rat where "x = of_int n / 1048576"
  have size: "js_div (num (fileSizeBytes stats)) (num (1024 * 1024)) = Finite (fl x)"
    by (simp add: num_def x_def n_def)
  have res: "result (validateFileSize stats) =
               (if 3 < fl x then FAIL else if 1 < fl x then WARN else PASS)"
    unfolding validateFileSize_def size by (simp add: num_def Let_def)
  have one: "1 < fl x \<longleftrightarrow> 1048576 < n"
  proof
    assume "1 < fl x"
    show "1048576 < n"
    proof (rule ccontr)
      assume "\<not> 1048576 < n"
      then have "x \<le> 1" by (simp add: x_def)
      from fl_mono [OF this] \<open>1 < fl x\<close> show False by (simp add: fl_1)
    qed
  next
    assume "1048576 < n"
    then have "1048577 \<le> n" by simp
    then have "(of_int 1048577 :: rat) \<le> of_int n" by (simp only: of_int_le_iff)
    then have "1048577 / 1048576 \<le> x" by (simp add: x_def)
    from fl_mono [OF this] have "fl (1048577 / 1048576) \<le> fl x" .
    moreover have "1 < fl (1048577 / 1048576)" by code_simp
    ultimately show "1 < fl x" by linarith
  qed
  have three: "3 < fl x \<longleftrightarrow> 3 * 1048576 < n"
  proof
    assume "3 < fl x"
    show "3 * 1048576 < n"
    proof (rule ccontr)
      assume "\<not> 3 * 1048576 < n"
      then have "x \<le> 3" by (simp add: x_def)
      from fl_mono [OF this] \<open>3 < fl x\<close> show False by (simp add: fl_3)
    qed
  next
    assume "3 * 1048576 < n"
    then have "3145729 \<le> n" by simp
    then have "(of_int 3145729 :: rat) \<le> of_int n" by (simp only: of_int_le_iff)
    then have "3145729 / 1048576 \<le> x" by (simp add: x_def)
    from fl_mono [OF this] have "fl (3145729 / 1048576) \<le> fl x" .
    moreover have "3 < fl (3145729 / 1048576)" by code_simp
    ultimately show "3 < fl x" by linarith
  qed
  have "result (validateFileSize stats) =
          (if n \<le> 1048576 then PASS else if n \<le> 3 * 1048576 then WARN else FAIL)"
    unfolding res one three by auto
  then show ?thesis
    unfolding n_def by (simp only: find_file_size simp_thms)
qed

text \<open>The sizes of the tests (500KB, 4MB) and the bytes on both sides of each threshold.\<close>

theorem file_size_thresholds_witness:
  "result (validateFileSize (createMockModelStats\<lparr>fileSizeBytes := 500 * 1024\<rparr>)) = PASS \<and>
   result (validateFileSize (createMockModelStats\<lparr>fileSizeBytes := 1048576\<rparr>)) = PASS \<and>
   result (validateFileSize (createMockModelStats\<lparr>fileSizeBytes := 1048577\<rparr>)) = WARN \<and>
   result (validateFileSize (createMockModelStats\<lparr>fileSizeBytes := 3145728\<rparr>)) = WARN \<and>
   result (validateFileSize (createMockModelStats\<lparr>fileSizeBytes := 3145729\<rparr>)) = FAIL \<and>
   result (validateFileSize (createMockModelStats\<lparr>fileSizeBytes := 4 * 1024 * 1024\<rparr>)) = FAIL"
  using file_size_thresholds [of "createMockModelStats\<lparr>fileSizeBytes := 500 * 1024\<rparr>" createMockUserSelection "''test.glb''"]
        file_size_thresholds [of "createMockModelStats\<lparr>fileSizeBytes := 1048576\<rparr>" createMockUserSelection "''test.glb''"]
        file_size_thresholds [of "createMockModelStats\<lparr>fileSizeBytes := 1048577\<rparr>" createMockUserSelection "''test.glb''"]
        file_size_thresholds [of "createMockModelStats\<lparr>fileSizeBytes := 3145728\<rparr>" createMockUserSelection "''test.glb''"]
        file_size_thresholds [of "createMockModelStats\<lparr>fileSizeBytes := 3145729\<rparr>" createMockUserSelection "''test.glb''"]
        file_size_thresholds [of "createMockModelStats\<lparr>fileSizeBytes := 4 * 1024 * 1024\<rparr>" createMockUserSelection "''test.glb''"]
  by simp

section \<open>The budget is not monotone\<close>

text \<open>
  Claim C10. The budget is not monotone in the hidden slots: a helmet hiding seven of
  the eight head-hide slots and \<open>upper_body\<close>, \<open>lower_body\<close>, \<open>feet\<close> has a budget of
  11500, and appending the missing eighth slot, \<open>top_head\<close>, lowers it to 4000.
\<close>

theorem budget_not_monotone:
  "computeTriangleBudget
     \<lparr>targetSlot = helmet,
      hiddenSlots = [head, earring, eyewear, tiara, hat, facial_hair, hair,
                     upper_body, lower_body, feet],
      handHidesBase = hb\<rparr> = 11500 \<and>
   computeTriangleBudget
     \<lparr>targetSlot = helmet,
      hiddenSlots = [head, earring, eyewear, tiara, hat, facial_hair, hair,
                     upper_body, lower_body, feet] @ [top_head],
      handHidesBase = hb\<rparr> = 4000 \<and>
   \<not> (\<forall>sel s. computeTriangleBudget sel
                \<le> computeTriangleBudget (sel\<lparr>hiddenSlots := hiddenSlots sel @ [s]\<rparr>))"
proof -
  let ?hs = "[head, earring, eyewear, tiara, hat, facial_hair, hair, upper_body, lower_body, feet]"
  let ?sel = "\<lparr>targetSlot = helmet, hiddenSlots = ?hs, handHidesBase = hb\<rparr>"
  have a: "computeTriangleBudget ?sel = 11500"
    by (simp add: computeTriangleBudget_cases)
  have b: "computeTriangleBudget (?sel\<lparr>hiddenSlots := hiddenSlots ?sel @ [top_head]\<rparr>) = 4000"
    by (simp add: computeTriangleBudget_cases)
  have "\<not> computeTriangleBudget ?sel
          \<le> computeTriangleBudget (?sel\<lparr>hiddenSlots := hiddenSlots ?sel @ [top_head]\<rparr>)"
    unfolding a b by simp
  then have "\<not> (\<forall>sel s. computeTriangleBudget sel
                \<le> computeTriangleBudget (sel\<lparr>hiddenSlots := hiddenSlots sel @ [s]\<rparr>))"
    by blast
  with a b show ?thesis by simp
qed

end
